theory Spec2Isabelle
  imports Main "HOL-Library.AList"
begin

section \<open>The bulletin board of decidim-electionguard\<close>

text \<open>
  A shallow embedding of \<^verbatim>\<open>src/decidim/electionguard/bulletin_board.py\<close>.
  Python dictionaries keep insertion order, so a dictionary is an association list with
  distinct keys: \<^verbatim>\<open>d[k] = v\<close> is \<^const>\<open>AList.update\<close> (the value is replaced in
  place when the key is present, the pair is appended otherwise), \<^verbatim>\<open>len(d)\<close> is
  \<^const>\<open>length\<close>, \<^verbatim>\<open>d.values()\<close> is \<open>map snd\<close>. An attribute that no
  assignment has created yet is \<open>None\<close>, and reading it raises \<open>AttributeError\<close>.
  Every handler returns what the Python returns (or the exception it raises) together with
  the objects it has mutated up to that point.
\<close>

subsection \<open>Data\<close>

type_synonym GUARDIAN_ID = string
type_synonym CONTEST_ID = string
type_synonym SELECTION_ID = string
type_synonym ElementModP = nat
type_synonym ElementModQ = nat
type_synonym ('k, 'v) dict = "('k \<times> 'v) list"

text \<open>Values of the electionguard library that the bulletin board only passes around.\<close>

type_synonym ElectionDescription = nat
type_synonym InternalElectionDescription = nat
type_synonym ElectionBuilder = nat
type_synonym CiphertextBallot = nat
type_synonym CiphertextDecryptionSelection = nat

datatype BallotBoxState = CAST | SPOILED | UNKNOWN

type_synonym CiphertextAcceptedBallot = "CiphertextBallot \<times> BallotBoxState"

datatype error = AttributeError | DecodeError | InvalidBallot | UnwrapNone

record CiphertextElectionContext =
  crypto_extended_base_hash :: ElementModQ
  crypto_context_rest :: nat

record CiphertextTallySelection =
  cts_object_id :: SELECTION_ID
  cts_ciphertext :: nat

record CiphertextTallyContest =
  ctc_object_id :: CONTEST_ID
  tally_selections :: "(SELECTION_ID, CiphertextTallySelection) dict"

record CiphertextTally =
  ct_object_id :: string
  cast :: "(CONTEST_ID, CiphertextTallyContest) dict"
  cast_ballot_ids :: "string list"

record PlaintextTallySelection =
  pts_object_id :: SELECTION_ID
  pts_tally :: nat

record PlaintextTallyContest =
  ptc_object_id :: CONTEST_ID
  ptc_selections :: "(SELECTION_ID, PlaintextTallySelection) dict"

text \<open>The message classes of \<^verbatim>\<open>.messages\<close> and \<^verbatim>\<open>electionguard.key_ceremony\<close>, with the
  fields the bulletin board reads.\<close>

record PublicKeySet =
  owner_id :: GUARDIAN_ID
  election_public_key :: ElementModP

record CiphertextDecryptionContest =
  selections :: "(SELECTION_ID, CiphertextDecryptionSelection) dict"

record TrusteeShare =
  ts_guardian_id :: GUARDIAN_ID
  ts_public_key :: ElementModP
  contests :: "(CONTEST_ID, CiphertextDecryptionContest) dict"

record CreateElection =
  trustees :: nat
  scheme_quorum :: nat
  description :: ElectionDescription

text \<open>
  What \<^verbatim>\<open>message['content']\<close> (or, for \<^verbatim>\<open>create_election\<close> and \<^verbatim>\<open>add_ballot\<close>, the
  whole dictionary) holds: the JSON of one of the classes that the steps decode, or
  anything else.
\<close>

datatype Content =
    PublicKeySetJSON PublicKeySet
  | TrusteePartialKeysJSON GUARDIAN_ID
  | TrusteeVerificationJSON GUARDIAN_ID
  | TrusteeShareJSON TrusteeShare
  | CiphertextBallotJSON CiphertextBallot
  | CreateElectionJSON CreateElection
  | OtherJSON nat

text \<open>Modelled from the spec: \<^verbatim>\<open>serialize\<close> and \<^verbatim>\<open>serialize_as_dict\<close> of \<^verbatim>\<open>.utils\<close> are
  not among the sources; what the bulletin board sends out carries the joint key, the
  results or the cast tally, and the serialised form is kept as the value it serialises.\<close>

datatype OutBody =
    SerializedJointElectionKey ElementModP
  | Results "(CONTEST_ID, PlaintextTallyContest) dict"
  | SerializedCast "(CONTEST_ID, CiphertextTallyContest) dict"

record OutMessage =
  out_message_type :: string
  out_body :: OutBody

text \<open>The functions of the electionguard library, as parameters of the model. Where the
  library returns an \<^verbatim>\<open>Optional\<close> (or the source unwraps the result with
  \<^verbatim>\<open>get_optional\<close>) the parameter returns an option; none of them is taken to raise.\<close>

record electionguard =
  new_ElectionBuilder :: "nat \<Rightarrow> nat \<Rightarrow> ElectionDescription \<Rightarrow> ElectionBuilder"
  set_public_key :: "ElectionBuilder \<Rightarrow> ElementModP \<Rightarrow> ElectionBuilder"
  build :: "ElectionBuilder \<Rightarrow> (InternalElectionDescription \<times> CiphertextElectionContext) option"
  elgamal_combine_public_keys :: "ElementModP list \<Rightarrow> ElementModP option"
  ballot_is_valid_for_election ::
    "CiphertextBallot \<Rightarrow> InternalElectionDescription \<Rightarrow> CiphertextElectionContext \<Rightarrow> bool"
  new_CiphertextTally ::
    "string \<Rightarrow> InternalElectionDescription \<Rightarrow> CiphertextElectionContext \<Rightarrow> CiphertextTally"
  from_ciphertext_ballot :: "CiphertextBallot \<Rightarrow> BallotBoxState \<Rightarrow> CiphertextAcceptedBallot"
  tally_ballot :: "CiphertextAcceptedBallot \<Rightarrow> CiphertextTally \<Rightarrow> CiphertextTally"
  decrypt_selection_with_decryption_shares ::
    "CiphertextTallySelection \<Rightarrow>
     (GUARDIAN_ID, ElementModP \<times> CiphertextDecryptionSelection) dict \<Rightarrow>
     ElementModQ \<Rightarrow> PlaintextTallySelection option"

text \<open>\<^verbatim>\<open>BulletinBoardContext\<close>: \<^verbatim>\<open>__init__\<close> creates \<open>public_keys\<close>, \<open>has_joint_key\<close>
  and \<open>shares\<close>; the other attributes exist once something has assigned them.\<close>

record BulletinBoardContext =
  public_keys :: "(GUARDIAN_ID, ElementModP) dict"
  has_joint_key :: bool
  shares :: "(GUARDIAN_ID, TrusteeShare) dict"
  tally :: "CiphertextTally option"
  number_of_guardians :: "nat option"
  quorum :: "nat option"
  election :: "ElectionDescription option"
  election_builder :: "ElectionBuilder option"
  election_metadata :: "InternalElectionDescription option"
  election_context :: "CiphertextElectionContext option"

definition BulletinBoardContext_init :: BulletinBoardContext where
  "BulletinBoardContext_init =
     \<lparr>public_keys = [], has_joint_key = False, shares = [], tally = None,
      number_of_guardians = None, quorum = None, election = None, election_builder = None,
      election_metadata = None, election_context = None\<rparr>"

text \<open>The steps; the two steps with a \<^verbatim>\<open>setup\<close> carry the set it creates.\<close>

datatype ElectionStep =
    ProcessCreateElection
  | ProcessStartKeyCeremony
  | ProcessTrusteeElectionKeys
  | ProcessTrusteeElectionPartialKeys "GUARDIAN_ID set"
  | ProcessTrusteeVerification "GUARDIAN_ID set"
  | ProcessStartVote
  | ProcessCastVote
  | ProcessStartTally
  | ProcessTrusteeShare

type_synonym step_result = "error + (OutMessage option \<times> ElectionStep option)"

subsection \<open>Helpers that the source imports\<close>

text \<open>Modelled from the spec: \<^verbatim>\<open>deserialize\<close> of \<^verbatim>\<open>.utils\<close> is not among the sources;
  "decoding a message's content into its expected shape fails" with a decode error, which
  the handlers below raise as \<open>DecodeError\<close> before they change anything. There is one
  function for each class that the source decodes into.\<close>

definition deserialize_PublicKeySet :: "Content \<Rightarrow> PublicKeySet option" where
  "deserialize_PublicKeySet c = (case c of PublicKeySetJSON k \<Rightarrow> Some k | _ \<Rightarrow> None)"

definition deserialize_TrusteePartialKeys :: "Content \<Rightarrow> GUARDIAN_ID option" where
  "deserialize_TrusteePartialKeys c = (case c of TrusteePartialKeysJSON g \<Rightarrow> Some g | _ \<Rightarrow> None)"

definition deserialize_TrusteeVerification :: "Content \<Rightarrow> GUARDIAN_ID option" where
  "deserialize_TrusteeVerification c = (case c of TrusteeVerificationJSON g \<Rightarrow> Some g | _ \<Rightarrow> None)"

definition deserialize_TrusteeShare :: "Content \<Rightarrow> TrusteeShare option" where
  "deserialize_TrusteeShare c = (case c of TrusteeShareJSON s \<Rightarrow> Some s | _ \<Rightarrow> None)"

definition deserialize_CiphertextBallot :: "Content \<Rightarrow> CiphertextBallot option" where
  "deserialize_CiphertextBallot c = (case c of CiphertextBallotJSON b \<Rightarrow> Some b | _ \<Rightarrow> None)"

text \<open>\<^verbatim>\<open>get_optional\<close> of electionguard raises on \<^verbatim>\<open>None\<close>.\<close>

definition get_optional :: "'a option \<Rightarrow> error + 'a" where
  "get_optional x = (case x of None \<Rightarrow> Inl UnwrapNone | Some v \<Rightarrow> Inr v)"

text \<open>Modelled from the spec: \<^verbatim>\<open>pair_with_object_id\<close> of \<^verbatim>\<open>.utils\<close> is not among the
  sources; the results are assembled per selection identifier, so it pairs an object with
  its \<^verbatim>\<open>object_id\<close>, and reading that attribute of \<^verbatim>\<open>None\<close> raises.\<close>

definition pair_with_object_id ::
  "PlaintextTallySelection option \<Rightarrow> error + (SELECTION_ID \<times> PlaintextTallySelection)" where
  "pair_with_object_id x =
     (case x of None \<Rightarrow> Inl AttributeError | Some p \<Rightarrow> Inr (pts_object_id p, p))"

text \<open>Modelled from the spec: \<^verbatim>\<open>Context.build_election\<close> of \<^verbatim>\<open>.common\<close> is not among the
  sources; it "builds the initial election skeleton (guardian count, base parameters) from
  its content".\<close>

definition build_election ::
  "electionguard \<Rightarrow> Content \<Rightarrow> BulletinBoardContext \<Rightarrow> (error + unit) \<times> BulletinBoardContext" where
  "build_election L message ctx =
     (case message of
        CreateElectionJSON c \<Rightarrow>
          (Inr (),
           ctx\<lparr>election := Some (description c),
                   number_of_guardians := Some (trustees c),
                   quorum := Some (scheme_quorum c),
                   election_builder :=
                     Some (new_ElectionBuilder L (trustees c) (scheme_quorum c) (description c))\<rparr>)
      | _ \<Rightarrow> (Inl DecodeError, ctx))"

subsection \<open>The steps\<close>

definition ProcessCreateElection_process_message ::
  "electionguard \<Rightarrow> string \<Rightarrow> Content \<Rightarrow> BulletinBoardContext \<Rightarrow>
   step_result \<times> BulletinBoardContext" where
  "ProcessCreateElection_process_message L message_type message ctx =
     (case build_election L message ctx of
        (Inl e, ctx') \<Rightarrow> (Inl e, ctx')
      | (Inr _, ctx') \<Rightarrow> (Inr (None, Some ProcessStartKeyCeremony), ctx'))"

definition ProcessStartKeyCeremony_process_message ::
  "electionguard \<Rightarrow> string \<Rightarrow> Content \<Rightarrow> BulletinBoardContext \<Rightarrow>
   step_result \<times> BulletinBoardContext" where
  "ProcessStartKeyCeremony_process_message L message_type message ctx =
     (Inr (None, Some ProcessTrusteeElectionKeys), ctx)"

definition ProcessTrusteeElectionKeys_process_message ::
  "electionguard \<Rightarrow> string \<Rightarrow> Content \<Rightarrow> BulletinBoardContext \<Rightarrow>
   step_result \<times> BulletinBoardContext" where
  "ProcessTrusteeElectionKeys_process_message L message_type message ctx =
     (case deserialize_PublicKeySet message of
        None \<Rightarrow> (Inl DecodeError, ctx)
      | Some content \<Rightarrow>
          (let guardian_id = owner_id content;
               guardian_public_key = election_public_key content;
               ctx1 = ctx\<lparr>public_keys :=
                        AList.update guardian_id guardian_public_key (public_keys ctx)\<rparr>
           in case number_of_guardians ctx1 of
                None \<Rightarrow> (Inl AttributeError, ctx1)
              | Some n \<Rightarrow>
                  if length (public_keys ctx1) = n
                  then (Inr (None, Some (ProcessTrusteeElectionPartialKeys {})), ctx1)
                  else (Inr (None, None), ctx1)))"

definition ProcessTrusteeElectionPartialKeys_process_message ::
  "electionguard \<Rightarrow> string \<Rightarrow> Content \<Rightarrow> GUARDIAN_ID set \<Rightarrow> BulletinBoardContext \<Rightarrow>
   step_result \<times> GUARDIAN_ID set \<times> BulletinBoardContext" where
  "ProcessTrusteeElectionPartialKeys_process_message L message_type message
       partial_keys_received ctx =
     (case deserialize_TrusteePartialKeys message of
        None \<Rightarrow> (Inl DecodeError, partial_keys_received, ctx)
      | Some guardian_id \<Rightarrow>
          (let received = insert guardian_id partial_keys_received
           in case number_of_guardians ctx of
                None \<Rightarrow> (Inl AttributeError, received, ctx)
              | Some n \<Rightarrow>
                  if card received = n
                  then (Inr (None, Some (ProcessTrusteeVerification {})), received, ctx)
                  else (Inr (None, None), received, ctx)))"

definition ProcessTrusteeVerification_process_message ::
  "electionguard \<Rightarrow> string \<Rightarrow> Content \<Rightarrow> GUARDIAN_ID set \<Rightarrow> BulletinBoardContext \<Rightarrow>
   step_result \<times> GUARDIAN_ID set \<times> BulletinBoardContext" where
  "ProcessTrusteeVerification_process_message L message_type message
       verifications_received ctx =
     (case deserialize_TrusteeVerification message of
        None \<Rightarrow> (Inl DecodeError, verifications_received, ctx)
      | Some guardian_id \<Rightarrow>
          (let received = insert guardian_id verifications_received
           in case number_of_guardians ctx of
                None \<Rightarrow> (Inl AttributeError, received, ctx)
              | Some n \<Rightarrow>
                  if card received < n then (Inr (None, None), received, ctx)
                  else
                    (let joint_key = elgamal_combine_public_keys L (map snd (public_keys ctx))
                     in case election_builder ctx of
                          None \<Rightarrow> (Inl AttributeError, received, ctx)
                        | Some builder \<Rightarrow>
                            (case get_optional joint_key of
                               Inl e \<Rightarrow> (Inl e, received, ctx)
                             | Inr key \<Rightarrow>
                                 (let builder1 = set_public_key L builder key;
                                      ctx1 = ctx\<lparr>election_builder := Some builder1\<rparr>
                                  in case get_optional (build L builder1) of
                                       Inl e \<Rightarrow> (Inl e, received, ctx1)
                                     | Inr (metadata, econtext) \<Rightarrow>
                                         (Inr (Some \<lparr>out_message_type = ''end_key_ceremony'',
                                                      out_body = SerializedJointElectionKey key\<rparr>,
                                               Some ProcessStartVote),
                                          received,
                                          ctx1\<lparr>election_metadata := Some metadata,
                                               election_context := Some econtext\<rparr>))))))"

definition ProcessStartVote_process_message ::
  "electionguard \<Rightarrow> string \<Rightarrow> Content \<Rightarrow> BulletinBoardContext \<Rightarrow>
   step_result \<times> BulletinBoardContext" where
  "ProcessStartVote_process_message L message_type message ctx =
     (Inr (None, Some ProcessCastVote), ctx)"

definition ProcessCastVote_skip_message :: "string \<Rightarrow> bool" where
  "ProcessCastVote_skip_message message_type =
     (message_type \<noteq> ''vote.cast'' \<and> message_type \<noteq> ''end_vote'')"

definition ProcessCastVote_process_message ::
  "electionguard \<Rightarrow> string \<Rightarrow> Content \<Rightarrow> BulletinBoardContext \<Rightarrow>
   step_result \<times> BulletinBoardContext" where
  "ProcessCastVote_process_message L message_type message ctx =
     (if message_type = ''end_vote'' then
        (case election_metadata ctx of
           None \<Rightarrow> (Inl AttributeError, ctx)
         | Some metadata \<Rightarrow>
             (case election_context ctx of
                None \<Rightarrow> (Inl AttributeError, ctx)
              | Some econtext \<Rightarrow>
                  (Inr (None, Some ProcessStartTally),
                   ctx\<lparr>tally :=
                         Some (new_CiphertextTally L ''election-results'' metadata econtext)\<rparr>)))
      else
        (case deserialize_CiphertextBallot message of
           None \<Rightarrow> (Inl DecodeError, ctx)
         | Some ballot \<Rightarrow>
             (case election_metadata ctx of
                None \<Rightarrow> (Inl AttributeError, ctx)
              | Some metadata \<Rightarrow>
                  (case election_context ctx of
                     None \<Rightarrow> (Inl AttributeError, ctx)
                   | Some econtext \<Rightarrow>
                       if \<not> ballot_is_valid_for_election L ballot metadata econtext
                       then (Inl InvalidBallot, ctx)
                       else (Inr (None, None), ctx)))))"

definition ProcessStartTally_process_message ::
  "electionguard \<Rightarrow> string \<Rightarrow> Content \<Rightarrow> BulletinBoardContext \<Rightarrow>
   step_result \<times> BulletinBoardContext" where
  "ProcessStartTally_process_message L message_type message ctx =
     (Inr (None, Some ProcessTrusteeShare), ctx)"

text \<open>\<^verbatim>\<open>shares[k]\<close> on the \<^verbatim>\<open>defaultdict(dict)\<close>: an absent key reads as the empty
  dictionary.\<close>

definition defaultdict_get :: "('k, ('a, 'b) dict) dict \<Rightarrow> 'k \<Rightarrow> ('a, 'b) dict" where
  "defaultdict_get d k = (case map_of d k of None \<Rightarrow> [] | Some v \<Rightarrow> v)"

definition prepare_shares_for_decryption ::
  "(GUARDIAN_ID, TrusteeShare) dict \<Rightarrow>
   (SELECTION_ID, (GUARDIAN_ID, ElementModP \<times> CiphertextDecryptionSelection) dict) dict" where
  "prepare_shares_for_decryption tally_shares =
     fold (\<lambda>(guardian_id, share).
        fold (\<lambda>(question_id, question).
           fold (\<lambda>(selection_id, selection) shares.
                   AList.update selection_id
                     (AList.update guardian_id (ts_public_key share, selection)
                        (defaultdict_get shares selection_id))
                     shares)
                (selections question))
             (contests share))
          tally_shares []"

text \<open>The generator that \<^verbatim>\<open>dict(...)\<close> consumes, one selection at a time.\<close>

fun decrypt_selections ::
  "electionguard \<Rightarrow>
   (SELECTION_ID, (GUARDIAN_ID, ElementModP \<times> CiphertextDecryptionSelection) dict) dict \<Rightarrow>
   BulletinBoardContext \<Rightarrow> CiphertextTallySelection list \<Rightarrow>
   (SELECTION_ID, PlaintextTallySelection) dict \<Rightarrow>
   error + (SELECTION_ID, PlaintextTallySelection) dict" where
  "decrypt_selections L tally_shares ctx [] acc = Inr acc"
| "decrypt_selections L tally_shares ctx (selection # rest) acc =
     (case election_context ctx of
        None \<Rightarrow> Inl AttributeError
      | Some econtext \<Rightarrow>
          (case pair_with_object_id
                  (decrypt_selection_with_decryption_shares L selection
                     (defaultdict_get tally_shares (cts_object_id selection))
                     (crypto_extended_base_hash econtext)) of
             Inl e \<Rightarrow> Inl e
           | Inr (k, v) \<Rightarrow> decrypt_selections L tally_shares ctx rest (AList.update k v acc)))"

text \<open>The loop over \<^verbatim>\<open>context.tally.cast.values()\<close>.\<close>

fun decrypt_contests ::
  "electionguard \<Rightarrow>
   (SELECTION_ID, (GUARDIAN_ID, ElementModP \<times> CiphertextDecryptionSelection) dict) dict \<Rightarrow>
   BulletinBoardContext \<Rightarrow> CiphertextTallyContest list \<Rightarrow>
   (CONTEST_ID, PlaintextTallyContest) dict \<Rightarrow>
   error + (CONTEST_ID, PlaintextTallyContest) dict" where
  "decrypt_contests L tally_shares ctx [] results = Inr results"
| "decrypt_contests L tally_shares ctx (contest # rest) results =
     (case decrypt_selections L tally_shares ctx (map snd (tally_selections contest)) [] of
        Inl e \<Rightarrow> Inl e
      | Inr sels \<Rightarrow>
          decrypt_contests L tally_shares ctx rest
            (AList.update (ctc_object_id contest)
               \<lparr>ptc_object_id = ctc_object_id contest, ptc_selections = sels\<rparr> results))"

definition ProcessTrusteeShare_process_message ::
  "electionguard \<Rightarrow> string \<Rightarrow> Content \<Rightarrow> BulletinBoardContext \<Rightarrow>
   step_result \<times> BulletinBoardContext" where
  "ProcessTrusteeShare_process_message L message_type message ctx =
     (case deserialize_TrusteeShare message of
        None \<Rightarrow> (Inl DecodeError, ctx)
      | Some content \<Rightarrow>
          (let ctx1 = ctx\<lparr>shares := AList.update (ts_guardian_id content) content (shares ctx)\<rparr>
           in case number_of_guardians ctx1 of
                None \<Rightarrow> (Inl AttributeError, ctx1)
              | Some n \<Rightarrow>
                  if length (shares ctx1) < n then (Inr (None, None), ctx1)
                  else
                    (let tally_shares = prepare_shares_for_decryption (shares ctx1)
                     in case tally ctx1 of
                          None \<Rightarrow> (Inl AttributeError, ctx1)
                        | Some t \<Rightarrow>
                            (case decrypt_contests L tally_shares ctx1 (map snd (cast t)) [] of
                               Inl e \<Rightarrow> (Inl e, ctx1)
                             | Inr results \<Rightarrow>
                                 (Inr (Some \<lparr>out_message_type = ''end_tally'',
                                              out_body = Results results\<rparr>,
                                       None),
                                  ctx1)))))"

subsection \<open>The bulletin board\<close>

text \<open>The \<^verbatim>\<open>message_type\<close> attribute of each step class; \<^verbatim>\<open>ProcessCastVote\<close> has
  none and overrides \<^verbatim>\<open>skip_message\<close> instead.\<close>

fun message_type_of :: "ElectionStep \<Rightarrow> string option" where
  "message_type_of ProcessCreateElection = Some ''create_election''"
| "message_type_of ProcessStartKeyCeremony = Some ''start_key_ceremony''"
| "message_type_of ProcessTrusteeElectionKeys = Some ''key_ceremony.trustee_election_keys''"
| "message_type_of (ProcessTrusteeElectionPartialKeys _) =
     Some ''key_ceremony.trustee_partial_election_keys''"
| "message_type_of (ProcessTrusteeVerification _) = Some ''key_ceremony.trustee_verification''"
| "message_type_of ProcessStartVote = Some ''start_vote''"
| "message_type_of ProcessCastVote = None"
| "message_type_of ProcessStartTally = Some ''start_tally''"
| "message_type_of ProcessTrusteeShare = Some ''tally.trustee_share''"

text \<open>Modelled from the spec: \<^verbatim>\<open>ElectionStep.skip_message\<close> of \<^verbatim>\<open>.common\<close> is not among
  the sources; a step ignores every message whose type is outside its expected message
  type. The override of \<^verbatim>\<open>ProcessCastVote\<close> is the source's.\<close>

fun skip_message :: "ElectionStep \<Rightarrow> string \<Rightarrow> bool" where
  "skip_message ProcessCastVote message_type = ProcessCastVote_skip_message message_type"
| "skip_message step message_type = (message_type_of step \<noteq> Some message_type)"

text \<open>The method \<^verbatim>\<open>process_message\<close> of the step object: the result, the step object
  after the call and the context after the call.\<close>

fun step_process_message ::
  "electionguard \<Rightarrow> ElectionStep \<Rightarrow> string \<Rightarrow> Content \<Rightarrow> BulletinBoardContext \<Rightarrow>
   step_result \<times> ElectionStep \<times> BulletinBoardContext" where
  "step_process_message L ProcessCreateElection mt m ctx =
     (case ProcessCreateElection_process_message L mt m ctx of
        (r, ctx') \<Rightarrow> (r, ProcessCreateElection, ctx'))"
| "step_process_message L ProcessStartKeyCeremony mt m ctx =
     (case ProcessStartKeyCeremony_process_message L mt m ctx of
        (r, ctx') \<Rightarrow> (r, ProcessStartKeyCeremony, ctx'))"
| "step_process_message L ProcessTrusteeElectionKeys mt m ctx =
     (case ProcessTrusteeElectionKeys_process_message L mt m ctx of
        (r, ctx') \<Rightarrow> (r, ProcessTrusteeElectionKeys, ctx'))"
| "step_process_message L (ProcessTrusteeElectionPartialKeys received) mt m ctx =
     (case ProcessTrusteeElectionPartialKeys_process_message L mt m received ctx of
        (r, received', ctx') \<Rightarrow> (r, ProcessTrusteeElectionPartialKeys received', ctx'))"
| "step_process_message L (ProcessTrusteeVerification received) mt m ctx =
     (case ProcessTrusteeVerification_process_message L mt m received ctx of
        (r, received', ctx') \<Rightarrow> (r, ProcessTrusteeVerification received', ctx'))"
| "step_process_message L ProcessStartVote mt m ctx =
     (case ProcessStartVote_process_message L mt m ctx of
        (r, ctx') \<Rightarrow> (r, ProcessStartVote, ctx'))"
| "step_process_message L ProcessCastVote mt m ctx =
     (case ProcessCastVote_process_message L mt m ctx of
        (r, ctx') \<Rightarrow> (r, ProcessCastVote, ctx'))"
| "step_process_message L ProcessStartTally mt m ctx =
     (case ProcessStartTally_process_message L mt m ctx of
        (r, ctx') \<Rightarrow> (r, ProcessStartTally, ctx'))"
| "step_process_message L ProcessTrusteeShare mt m ctx =
     (case ProcessTrusteeShare_process_message L mt m ctx of
        (r, ctx') \<Rightarrow> (r, ProcessTrusteeShare, ctx'))"

record BulletinBoard =
  bb_context :: BulletinBoardContext
  bb_step :: ElectionStep

definition BulletinBoard_init :: BulletinBoard where
  "BulletinBoard_init =
     \<lparr>bb_context = BulletinBoardContext_init, bb_step = ProcessCreateElection\<rparr>"

text \<open>Modelled from the spec: \<^verbatim>\<open>Wrapper.process_message\<close> of \<^verbatim>\<open>.common\<close> is not among
  the sources. A message the active step does not accept is a no-op; otherwise the step's
  handler runs on the context, and a returned next step replaces the active one, freshly
  set up. An exception of the handler leaves the objects as the handler had mutated them.\<close>

definition process_message ::
  "electionguard \<Rightarrow> string \<Rightarrow> Content \<Rightarrow> BulletinBoard \<Rightarrow>
   (error + OutMessage option) \<times> BulletinBoard" where
  "process_message L message_type message bb =
     (if skip_message (bb_step bb) message_type then (Inr None, bb)
      else
        (case step_process_message L (bb_step bb) message_type message (bb_context bb) of
           (Inl e, step', ctx') \<Rightarrow> (Inl e, \<lparr>bb_context = ctx', bb_step = step'\<rparr>)
         | (Inr (result, next_step), step', ctx') \<Rightarrow>
             (Inr result,
              \<lparr>bb_context = ctx',
               bb_step = (case next_step of None \<Rightarrow> step' | Some n \<Rightarrow> n)\<rparr>)))"

definition add_ballot ::
  "electionguard \<Rightarrow> Content \<Rightarrow> BulletinBoard \<Rightarrow> (error + unit) \<times> BulletinBoard" where
  "add_ballot L ballot bb =
     (case deserialize_CiphertextBallot ballot of
        None \<Rightarrow> (Inl DecodeError, bb)
      | Some ciphertext_ballot \<Rightarrow>
          (let accepted = from_ciphertext_ballot L ciphertext_ballot CAST
           in case tally (bb_context bb) of
                None \<Rightarrow> (Inl AttributeError, bb)
              | Some t \<Rightarrow>
                  (Inr (),
                   bb\<lparr>bb_context := (bb_context bb)\<lparr>tally := Some (tally_ballot L accepted t)\<rparr>\<rparr>)))"


subsection \<open>Runs of the bulletin board\<close>

text \<open>What a caller can do with the object, and the object after a sequence of calls
  (a call that raises leaves the object to the next call).\<close>

datatype call = ProcessMessage string Content | AddBallot Content | GetTallyCast

fun do_call :: "electionguard \<Rightarrow> call \<Rightarrow> BulletinBoard \<Rightarrow> BulletinBoard" where
  "do_call L (ProcessMessage message_type message) bb = snd (process_message L message_type message bb)"
| "do_call L (AddBallot ballot) bb = snd (add_ballot L ballot bb)"
| "do_call L GetTallyCast bb = bb"

definition run :: "electionguard \<Rightarrow> call list \<Rightarrow> BulletinBoard \<Rightarrow> BulletinBoard" where
  "run L calls bb = fold (do_call L) calls bb"

subsection \<open>Submitting guardian keys\<close>

text \<open>The call that submits the election key \<open>snd gk\<close> of guardian \<open>fst gk\<close>, and the
  dictionary \<^verbatim>\<open>context.public_keys\<close> after a list of such submissions.\<close>

definition key_message :: "GUARDIAN_ID \<times> ElementModP \<Rightarrow> call" where
  "key_message gk =
     ProcessMessage ''key_ceremony.trustee_election_keys''
       (PublicKeySetJSON \<lparr>owner_id = fst gk, election_public_key = snd gk\<rparr>)"

definition record_keys ::
  "(GUARDIAN_ID \<times> ElementModP) list \<Rightarrow> (GUARDIAN_ID, ElementModP) dict \<Rightarrow>
   (GUARDIAN_ID, ElementModP) dict" where
  "record_keys gks pks = fold (\<lambda>gk. AList.update (fst gk) (snd gk)) gks pks"

subsection \<open>An example election\<close>

text \<open>A small instance of the library and of the data, on which the theorems below are
  evaluated: keys combine by multiplication, a ballot is valid unless it is 0, tallying a
  ballot adds it to every selection, and the decryption of a selection reports how many
  partial decryptions it was given.\<close>

definition demo_tally :: CiphertextTally where
  "demo_tally =
     \<lparr>ct_object_id = ''election-results'',
      cast = [(''contest-1'',
               \<lparr>ctc_object_id = ''contest-1'',
                tally_selections =
                  [(''sel-1'', \<lparr>cts_object_id = ''sel-1'', cts_ciphertext = 0\<rparr>)]\<rparr>)],
      cast_ballot_ids = []\<rparr>"

definition demo_lib :: electionguard where
  "demo_lib =
     \<lparr>new_ElectionBuilder = (\<lambda>n q d. d),
      set_public_key = (\<lambda>b k. b + k),
      build = (\<lambda>b. Some (b, \<lparr>crypto_extended_base_hash = 7, crypto_context_rest = b\<rparr>)),
      elgamal_combine_public_keys = (\<lambda>ks. Some (prod_list ks)),
      ballot_is_valid_for_election = (\<lambda>b md ec. b \<noteq> 0),
      new_CiphertextTally = (\<lambda>name md ec. demo_tally),
      from_ciphertext_ballot = (\<lambda>b s. (b, s)),
      tally_ballot =
        (\<lambda>a t. t\<lparr>cast :=
           map (\<lambda>c. (fst c, (snd c)\<lparr>tally_selections :=
                  map (\<lambda>s. (fst s, (snd s)\<lparr>cts_ciphertext := cts_ciphertext (snd s) + fst a\<rparr>))
                      (tally_selections (snd c))\<rparr>))
               (cast t)\<rparr>),
      decrypt_selection_with_decryption_shares =
        (\<lambda>s d h. Some \<lparr>pts_object_id = cts_object_id s, pts_tally = length d\<rparr>)\<rparr>"

definition demo_keys_bb :: BulletinBoard where
  "demo_keys_bb =
     \<lparr>bb_context = BulletinBoardContext_init\<lparr>number_of_guardians := Some 2\<rparr>,
      bb_step = ProcessTrusteeElectionKeys\<rparr>"

definition demo_verification_context :: BulletinBoardContext where
  "demo_verification_context =
     BulletinBoardContext_init
       \<lparr>public_keys := [(''alice'', 5), (''bob'', 7)], number_of_guardians := Some 2,
        election_builder := Some 1\<rparr>"

definition demo_voting_context :: BulletinBoardContext where
  "demo_voting_context =
     demo_verification_context
       \<lparr>election_builder := Some 36, election_metadata := Some 36,
        election_context := Some \<lparr>crypto_extended_base_hash = 7, crypto_context_rest = 36\<rparr>\<rparr>"

text \<open>The messages of an election with one guardian, up to the start of the vote, and the
  message that ends the vote.\<close>

definition demo_key_calls :: "call list" where
  "demo_key_calls =
     [ProcessMessage ''create_election''
        (CreateElectionJSON \<lparr>trustees = 1, scheme_quorum = 1, description = 0\<rparr>),
      ProcessMessage ''start_key_ceremony'' (OtherJSON 0),
      ProcessMessage ''key_ceremony.trustee_election_keys''
        (PublicKeySetJSON \<lparr>owner_id = ''alice'', election_public_key = 5\<rparr>),
      ProcessMessage ''key_ceremony.trustee_partial_election_keys''
        (TrusteePartialKeysJSON ''alice'')]"

definition demo_calls :: "call list" where
  "demo_calls =
     demo_key_calls @
     [ProcessMessage ''key_ceremony.trustee_verification'' (TrusteeVerificationJSON ''alice''),
      ProcessMessage ''start_vote'' (OtherJSON 0)]"

definition demo_end_vote :: call where
  "demo_end_vote = ProcessMessage ''end_vote'' (OtherJSON 0)"

text \<open>The tally phase of an election with two guardians: the share of alice is recorded,
  and bob sends one that covers the selection, or one that does not.\<close>

definition demo_share_alice :: TrusteeShare where
  "demo_share_alice =
     \<lparr>ts_guardian_id = ''alice'', ts_public_key = 5,
      contests = [(''contest-1'', \<lparr>selections = [(''sel-1'', 11)]\<rparr>)]\<rparr>"

definition demo_share_bob :: TrusteeShare where
  "demo_share_bob =
     \<lparr>ts_guardian_id = ''bob'', ts_public_key = 7,
      contests = [(''contest-1'', \<lparr>selections = [(''sel-1'', 13)]\<rparr>)]\<rparr>"

definition demo_share_bob_empty :: TrusteeShare where
  "demo_share_bob_empty =
     \<lparr>ts_guardian_id = ''bob'', ts_public_key = 7,
      contests = [(''contest-1'', \<lparr>selections = []\<rparr>)]\<rparr>"

definition demo_share_context :: BulletinBoardContext where
  "demo_share_context =
     demo_voting_context\<lparr>tally := Some demo_tally, shares := [(''alice'', demo_share_alice)]\<rparr>"

definition demo_plaintext ::
  "nat \<Rightarrow> (CONTEST_ID, PlaintextTallyContest) dict" where
  "demo_plaintext n =
     [(''contest-1'',
       \<lparr>ptc_object_id = ''contest-1'',
        ptc_selections = [(''sel-1'', \<lparr>pts_object_id = ''sel-1'', pts_tally = n\<rparr>)]\<rparr>)]"

subsection \<open>Notions used in the statements\<close>

text \<open>The steps that follow the \<^verbatim>\<open>end_vote\<close> message, and the steps that follow the
  collection of the guardians' keys.\<close>

fun after_end_vote :: "ElectionStep \<Rightarrow> bool" where
  "after_end_vote ProcessStartTally = True"
| "after_end_vote ProcessTrusteeShare = True"
| "after_end_vote _ = False"



definition end_tally :: "(CONTEST_ID, PlaintextTallyContest) dict \<Rightarrow> OutMessage" where
  "end_tally results = \<lparr>out_message_type = ''end_tally'', out_body = Results results\<rparr>"

text \<open>
  The tally step in the words of the specification. The partial decryption of the selection
  \<open>sid\<close> in a share bundle (the last one, should the bundle name the selection in several
  contests); the pairs gathered for a selection across the recorded bundles, one for each
  guardian whose bundle has the selection; the plaintext of a selection, combined from these
  pairs under the extended base hash; the results per contest and for the whole tally.
  \<^verbatim>\<open>dict(pairs)\<close> is \<open>dict_of\<close>.
\<close>

definition bundle_selection ::
  "TrusteeShare \<Rightarrow> SELECTION_ID \<Rightarrow> CiphertextDecryptionSelection option" where
  "bundle_selection share sid =
     map_of (rev (concat (map (\<lambda>q. selections (snd q)) (contests share)))) sid"

definition gather_shares ::
  "(GUARDIAN_ID, TrusteeShare) dict \<Rightarrow> SELECTION_ID \<Rightarrow>
   (GUARDIAN_ID, ElementModP \<times> CiphertextDecryptionSelection) dict" where
  "gather_shares sh sid =
     List.map_filter
       (\<lambda>gs. map_option (\<lambda>d. (fst gs, (ts_public_key (snd gs), d)))
               (bundle_selection (snd gs) sid))
       sh"

definition combine_selection ::
  "electionguard \<Rightarrow> (GUARDIAN_ID, TrusteeShare) dict \<Rightarrow> CiphertextElectionContext \<Rightarrow>
   CiphertextTallySelection \<Rightarrow> PlaintextTallySelection option" where
  "combine_selection L sh econtext selection =
     decrypt_selection_with_decryption_shares L selection
       (gather_shares sh (cts_object_id selection)) (crypto_extended_base_hash econtext)"

definition dict_of :: "('k \<times> 'v) list \<Rightarrow> ('k, 'v) dict" where
  "dict_of kvs = fold (\<lambda>kv. AList.update (fst kv) (snd kv)) kvs []"

definition contest_result ::
  "electionguard \<Rightarrow> (GUARDIAN_ID, TrusteeShare) dict \<Rightarrow> CiphertextElectionContext \<Rightarrow>
   CiphertextTallyContest \<Rightarrow> PlaintextTallyContest option" where
  "contest_result L sh econtext contest =
     map_option
       (\<lambda>ps. \<lparr>ptc_object_id = ctc_object_id contest,
              ptc_selections = dict_of (map (\<lambda>p. (pts_object_id p, p)) ps)\<rparr>)
       (those (map (combine_selection L sh econtext) (map snd (tally_selections contest))))"

definition tally_results ::
  "electionguard \<Rightarrow> (GUARDIAN_ID, TrusteeShare) dict \<Rightarrow> CiphertextElectionContext \<Rightarrow>
   CiphertextTally \<Rightarrow> (CONTEST_ID, PlaintextTallyContest) dict option" where
  "tally_results L sh econtext t =
     map_option (\<lambda>rs. dict_of (map (\<lambda>r. (ptc_object_id r, r)) rs))
       (those (map (contest_result L sh econtext) (map snd (cast t))))"

section \<open>Properties\<close>

subsection \<open>Unfolding and dictionaries\<close>

lemmas deserialize_defs =
  deserialize_PublicKeySet_def deserialize_TrusteePartialKeys_def
  deserialize_TrusteeVerification_def deserialize_TrusteeShare_def
  deserialize_CiphertextBallot_def

lemmas handler_defs =
  ProcessCreateElection_process_message_def build_election_def
  ProcessStartKeyCeremony_process_message_def
  ProcessTrusteeElectionKeys_process_message_def
  ProcessTrusteeElectionPartialKeys_process_message_def
  ProcessTrusteeVerification_process_message_def
  ProcessStartVote_process_message_def
  ProcessCastVote_process_message_def ProcessCastVote_skip_message_def
  ProcessStartTally_process_message_def
  ProcessTrusteeShare_process_message_def
  get_optional_def

lemmas demo_defs =
  demo_lib_def demo_tally_def demo_keys_bb_def demo_verification_context_def
  demo_voting_context_def BulletinBoardContext_init_def BulletinBoard_init_def

lemmas run_defs =
  run_def demo_calls_def demo_key_calls_def demo_end_vote_def demo_defs process_message_def
  handler_defs deserialize_defs

lemma run_Nil: "run L [] bb = bb"
  by (simp add: run_def)

lemma run_Cons: "run L (c # cs) bb = run L cs (do_call L c bb)"
  by (simp add: run_def)

lemma run_append: "run L (xs @ ys) bb = run L ys (run L xs bb)"
  by (simp add: run_def)

lemma dict_len_card: "distinct (map fst d) \<Longrightarrow> length d = card (fst ` set d)"
  by (metis distinct_card length_map set_map)

lemma length_dict_update:
  "length (AList.update k v d) = (if k \<in> fst ` set d then length d else Suc (length d))"
  by (induction d) auto

lemma record_keys_dom: "fst ` set (record_keys gks pks) = fst ` set pks \<union> fst ` set gks"
  by (induction gks arbitrary: pks) (auto simp: record_keys_def AList.dom_update)

lemma record_keys_distinct:
  "distinct (map fst pks) \<Longrightarrow> distinct (map fst (record_keys gks pks))"
  by (induction gks arbitrary: pks) (auto simp: record_keys_def AList.distinct_update)

subsection \<open>Collecting the guardians' keys\<close>

lemma key_message_step:
  assumes "bb_step bb = ProcessTrusteeElectionKeys"
    and "number_of_guardians (bb_context bb) = Some N"
  shows "do_call L (key_message gk) bb =
           \<lparr>bb_context = (bb_context bb)
              \<lparr>public_keys := AList.update (fst gk) (snd gk) (public_keys (bb_context bb))\<rparr>,
            bb_step =
              (if length (AList.update (fst gk) (snd gk) (public_keys (bb_context bb))) = N
               then ProcessTrusteeElectionPartialKeys {} else ProcessTrusteeElectionKeys)\<rparr>"
  using assms
  by (simp add: key_message_def process_message_def ProcessTrusteeElectionKeys_process_message_def
      deserialize_PublicKeySet_def Let_def)

text \<open>As long as fewer than \<open>N\<close> distinct guardians are recorded, the step stays and the
  dictionary holds what was submitted.\<close>

lemma keys_below_quorum:
  assumes "bb_step bb = ProcessTrusteeElectionKeys"
    and "number_of_guardians (bb_context bb) = Some N"
    and "distinct (map fst (public_keys (bb_context bb)))"
    and "card (fst ` set (public_keys (bb_context bb)) \<union> fst ` set gks) < N"
  shows "run L (map key_message gks) bb =
           \<lparr>bb_context = (bb_context bb)
              \<lparr>public_keys := record_keys gks (public_keys (bb_context bb))\<rparr>,
            bb_step = ProcessTrusteeElectionKeys\<rparr>"
  using assms
proof (induction gks arbitrary: bb)
  case Nil
  then show ?case by (simp add: run_Nil record_keys_def)
next
  case (Cons gk gks)
  let ?pks = "public_keys (bb_context bb)"
  let ?pks1 = "AList.update (fst gk) (snd gk) ?pks"
  let ?bb1 = "\<lparr>bb_context = (bb_context bb)\<lparr>public_keys := ?pks1\<rparr>,
              bb_step = ProcessTrusteeElectionKeys\<rparr>"
  have d1: "distinct (map fst ?pks1)"
    using Cons.prems(3) by (rule AList.distinct_update)
  have dom1: "fst ` set ?pks1 \<union> fst ` set gks = fst ` set ?pks \<union> fst ` set (gk # gks)"
    by (auto simp: AList.dom_update)
  have "fst ` set ?pks1 \<subseteq> fst ` set ?pks \<union> fst ` set (gk # gks)"
    by (auto simp: AList.dom_update)
  then have "card (fst ` set ?pks1) \<le> card (fst ` set ?pks \<union> fst ` set (gk # gks))"
    by (intro card_mono) auto
  then have "length ?pks1 < N"
    using Cons.prems(4) dict_len_card[OF d1] by simp
  then have step: "do_call L (key_message gk) bb = ?bb1"
    using key_message_step[OF Cons.prems(1,2), of L gk] by simp
  have "run L (map key_message gks) ?bb1 =
          \<lparr>bb_context = (bb_context ?bb1)
             \<lparr>public_keys := record_keys gks (public_keys (bb_context ?bb1))\<rparr>,
           bb_step = ProcessTrusteeElectionKeys\<rparr>"
  proof (rule Cons.IH)
    show "card (fst ` set (public_keys (bb_context ?bb1)) \<union> fst ` set gks) < N"
      using Cons.prems(4) dom1 by simp
  qed (use Cons.prems(2) d1 in simp_all)
  then show ?case
    by (simp add: run_Cons step record_keys_def)
qed

text \<open>Once another step is active, guardian keys are ignored.\<close>

lemma key_message_skipped:
  assumes "bb_step bb \<noteq> ProcessTrusteeElectionKeys"
  shows "do_call L (key_message gk) bb = bb"
  using assms
  by (cases "bb_step bb")
     (simp_all add: key_message_def process_message_def ProcessCastVote_skip_message_def)

lemma key_messages_skipped:
  assumes "bb_step bb \<noteq> ProcessTrusteeElectionKeys"
  shows "run L (map key_message gks) bb = bb"
  using assms
  by (induction gks) (simp_all add: run_Nil run_Cons key_message_skipped)

subsection \<open>Invariants of the runs\<close>

text \<open>The tally exists exactly from the \<^verbatim>\<open>end_vote\<close> message on.\<close>

lemma process_message_tally:
  assumes "tally (bb_context bb) \<noteq> None \<longleftrightarrow> after_end_vote (bb_step bb)"
  shows "tally (bb_context (snd (process_message L mt m bb))) \<noteq> None \<longleftrightarrow>
           after_end_vote (bb_step (snd (process_message L mt m bb)))"
  using assms
  by (cases "bb_step bb")
     (auto simp: process_message_def handler_defs Let_def
           split: option.splits sum.splits prod.splits Content.splits if_splits)

lemma do_call_tally:
  assumes "tally (bb_context bb) \<noteq> None \<longleftrightarrow> after_end_vote (bb_step bb)"
  shows "tally (bb_context (do_call L c bb)) \<noteq> None \<longleftrightarrow>
           after_end_vote (bb_step (do_call L c bb))"
proof (cases c)
  case (ProcessMessage mt m)
  then show ?thesis using process_message_tally[OF assms] by simp
next
  case (AddBallot b)
  then show ?thesis using assms
    by (auto simp: add_ballot_def Let_def split: option.splits)
next
  case GetTallyCast
  then show ?thesis using assms by simp
qed

lemma run_tally:
  assumes "tally (bb_context bb) \<noteq> None \<longleftrightarrow> after_end_vote (bb_step bb)"
  shows "tally (bb_context (run L calls bb)) \<noteq> None \<longleftrightarrow>
           after_end_vote (bb_step (run L calls bb))"
  using assms
proof (induction calls arbitrary: bb)
  case Nil
  then show ?case by (simp add: run_Nil)
next
  case (Cons c calls)
  show ?case
    unfolding run_Cons by (rule Cons.IH) (rule do_call_tally[OF Cons.prems])
qed

lemma reachable_tally:
  "tally (bb_context (run L calls BulletinBoard_init)) \<noteq> None \<longleftrightarrow>
     after_end_vote (bb_step (run L calls BulletinBoard_init))"
  by (rule run_tally) (simp add: BulletinBoard_init_def BulletinBoardContext_init_def)





subsection \<open>The example election, step by step\<close>

lemma demo_voting_state:
  "run demo_lib demo_calls BulletinBoard_init =
     \<lparr>bb_context =
        \<lparr>public_keys = [(''alice'', 5)], has_joint_key = False, shares = [], tally = None,
         number_of_guardians = Some 1, quorum = Some 1, election = Some 0,
         election_builder = Some 5, election_metadata = Some 5,
         election_context = Some \<lparr>crypto_extended_base_hash = 7, crypto_context_rest = 5\<rparr>\<rparr>,
      bb_step = ProcessCastVote\<rparr>"
  by (simp add: run_defs)

lemma demo_closed_state:
  "run demo_lib (demo_calls @ [demo_end_vote]) BulletinBoard_init =
     \<lparr>bb_context =
        \<lparr>public_keys = [(''alice'', 5)], has_joint_key = False, shares = [],
         tally = Some demo_tally,
         number_of_guardians = Some 1, quorum = Some 1, election = Some 0,
         election_builder = Some 5, election_metadata = Some 5,
         election_context = Some \<lparr>crypto_extended_base_hash = 7, crypto_context_rest = 5\<rparr>\<rparr>,
      bb_step = ProcessStartTally\<rparr>"
  by (simp add: run_append demo_voting_state)
     (simp add: run_def demo_end_vote_def process_message_def handler_defs demo_lib_def)

subsection \<open>Gathering the shares\<close>

lemma defaultdict_get_update:
  "defaultdict_get (AList.update k v d) k' = (if k' = k then v else defaultdict_get d k')"
  by (simp add: defaultdict_get_def AList.update_conv')

lemma dict_update_new: "k \<notin> fst ` set d \<Longrightarrow> AList.update k v d = d @ [(k, v)]"
  by (induction d) auto

lemma fold_fold_concat: "fold (\<lambda>x. fold f (h x)) xs acc = fold f (concat (map h xs)) acc"
  by (induction xs arbitrary: acc) simp_all

text \<open>The innermost loop, over the selections of one bundle: the last partial decryption
  a bundle has for a selection is the one that stays.\<close>

lemma add_selections_get:
  "defaultdict_get
     (fold (\<lambda>(selection_id, selection) shares.
              AList.update selection_id
                (AList.update g (pk, selection) (defaultdict_get shares selection_id)) shares)
           ds acc) sid =
   (case map_of (rev ds) sid of
      None \<Rightarrow> defaultdict_get acc sid
    | Some d \<Rightarrow> AList.update g (pk, d) (defaultdict_get acc sid))"
proof (induction ds arbitrary: acc)
  case Nil
  then show ?case by simp
next
  case (Cons a ds)
  obtain s1 d1 where a: "a = (s1, d1)" by (cases a)
  show ?case
    by (simp add: a Cons.IH defaultdict_get_update map_add_def split: option.splits)
qed

lemma add_bundle_get:
  "defaultdict_get
     (fold (\<lambda>(question_id, question).
           fold (\<lambda>(selection_id, selection) shares.
                   AList.update selection_id
                     (AList.update g (ts_public_key share, selection)
                        (defaultdict_get shares selection_id))
                     shares)
                (selections question))
        (contests share) acc) sid =
   (case bundle_selection share sid of
      None \<Rightarrow> defaultdict_get acc sid
    | Some d \<Rightarrow> AList.update g (ts_public_key share, d) (defaultdict_get acc sid))"
proof -
  have h: "(\<lambda>(question_id, question).
           fold (\<lambda>(selection_id, selection) shares.
                   AList.update selection_id
                     (AList.update g (ts_public_key share, selection)
                        (defaultdict_get shares selection_id))
                     shares)
                (selections question)) =
        (\<lambda>q. fold (\<lambda>(selection_id, selection) shares.
                   AList.update selection_id
                     (AList.update g (ts_public_key share, selection)
                        (defaultdict_get shares selection_id))
                     shares)
                (selections (snd q)))"
    by (simp add: fun_eq_iff split: prod.splits)
  show ?thesis
    unfolding h fold_fold_concat add_selections_get bundle_selection_def ..
qed

lemma prepare_fold_get:
  "defaultdict_get
     (fold (\<lambda>(guardian_id, share).
        fold (\<lambda>(question_id, question).
           fold (\<lambda>(selection_id, selection) shares.
                   AList.update selection_id
                     (AList.update guardian_id (ts_public_key share, selection)
                        (defaultdict_get shares selection_id))
                     shares)
                (selections question))
             (contests share))
          sh acc) sid =
   fold (\<lambda>gs inner. case bundle_selection (snd gs) sid of
                        None \<Rightarrow> inner
                      | Some d \<Rightarrow> AList.update (fst gs) (ts_public_key (snd gs), d) inner)
        sh (defaultdict_get acc sid)"
proof (induction sh arbitrary: acc)
  case Nil
  then show ?case by simp
next
  case (Cons a sh)
  obtain g share where a: "a = (g, share)" by (cases a)
  show ?case
    by (simp add: a Cons.IH add_bundle_get split: option.splits)
qed

lemma fold_gather:
  assumes "distinct (map fst sh)" and "fst ` set sh \<inter> fst ` set inner = {}"
  shows "fold (\<lambda>gs inner. case bundle_selection (snd gs) sid of
                        None \<Rightarrow> inner
                      | Some d \<Rightarrow> AList.update (fst gs) (ts_public_key (snd gs), d) inner)
        sh inner = inner @ gather_shares sh sid"
  using assms
proof (induction sh arbitrary: inner)
  case Nil
  then show ?case by (simp add: gather_shares_def)
next
  case (Cons a sh)
  show ?case
  proof (cases "bundle_selection (snd a) sid")
    case None
    with Cons show ?thesis by (simp add: gather_shares_def)
  next
    case (Some d)
    have new: "fst a \<notin> fst ` set inner" using Cons.prems(2) by auto
    have "fst ` set sh \<inter> fst ` set (inner @ [(fst a, (ts_public_key (snd a), d))]) = {}"
      using Cons.prems by auto
    with Cons.IH[of "inner @ [(fst a, (ts_public_key (snd a), d))]"] Cons.prems(1)
    show ?thesis
      by (simp add: Some dict_update_new[OF new] gather_shares_def)
  qed
qed

text \<open>The nested loops of \<^verbatim>\<open>_prepare_shares_for_decryption\<close> gather, for each selection,
  what the specification describes.\<close>

lemma prepare_shares_gather:
  assumes "distinct (map fst sh)"
  shows "defaultdict_get (prepare_shares_for_decryption sh) sid = gather_shares sh sid"
  unfolding prepare_shares_for_decryption_def prepare_fold_get
  using fold_gather[OF assms, of "[]" sid]
  by (simp add: defaultdict_get_def)

lemma gather_shares_keys:
  "map fst (gather_shares sh sid) =
     map fst (filter (\<lambda>gs. bundle_selection (snd gs) sid \<noteq> None) sh)"
  by (induction sh) (auto simp: gather_shares_def split: option.splits)

lemma gather_shares_set:
  "set (gather_shares sh sid) =
     {(fst gs, (ts_public_key (snd gs), d)) | gs d.
        gs \<in> set sh \<and> bundle_selection (snd gs) sid = Some d}"
  by (induction sh) (auto simp: gather_shares_def split: option.splits)

lemma gather_shares_distinct:
  "distinct (map fst sh) \<Longrightarrow> distinct (map fst (gather_shares sh sid))"
  unfolding gather_shares_keys by (simp add: distinct_map_filter)

lemma gather_shares_map_of:
  assumes "distinct (map fst sh)"
  shows "map_of (gather_shares sh sid) g =
           (case map_of sh g of
              None \<Rightarrow> None
            | Some share \<Rightarrow>
                map_option (\<lambda>d. (ts_public_key share, d)) (bundle_selection share sid))"
  using assms
proof (induction sh)
  case Nil
  then show ?case by (simp add: gather_shares_def)
next
  case (Cons a sh)
  have notin: "fst a \<notin> fst ` set (gather_shares sh sid)"
    using Cons.prems gather_shares_keys[of sh sid]
    by (metis (no_types, lifting) distinct.simps(2) filter_is_subset image_mono list.simps(9)
        set_map subsetD)
  then have none: "map_of (gather_shares sh sid) (fst a) = None"
    by (simp add: map_of_eq_None_iff)
  have ih: "map_of (gather_shares sh sid) g =
           (case map_of sh g of
              None \<Rightarrow> None
            | Some share \<Rightarrow>
                map_option (\<lambda>d. (ts_public_key share, d)) (bundle_selection share sid))"
    using Cons by simp
  have unfold: "gather_shares (a # sh) sid =
        (case bundle_selection (snd a) sid of
           None \<Rightarrow> gather_shares sh sid
         | Some d \<Rightarrow> (fst a, (ts_public_key (snd a), d)) # gather_shares sh sid)"
    by (simp add: gather_shares_def split: option.splits)
  show ?case
  proof (cases "g = fst a")
    case True
    then show ?thesis
      using none by (auto simp: unfold split: option.splits)
  next
    case False
    then show ?thesis
      using ih by (auto simp: unfold split: option.splits)
  qed
qed

subsection \<open>Combining the shares\<close>

lemma decrypt_selections_those:
  assumes "election_context ctx = Some econtext"
    and "\<And>sid. defaultdict_get tally_shares sid = gather_shares sh sid"
  shows "decrypt_selections L tally_shares ctx sels acc =
           (case those (map (combine_selection L sh econtext) sels) of
              None \<Rightarrow> Inl AttributeError
            | Some ps \<Rightarrow> Inr (fold (\<lambda>kv. AList.update (fst kv) (snd kv))
                               (map (\<lambda>p. (pts_object_id p, p)) ps) acc))"
proof (induction sels arbitrary: acc)
  case Nil
  then show ?case by simp
next
  case (Cons s sels)
  show ?case
    by (cases "combine_selection L sh econtext s")
       (auto simp: assms combine_selection_def pair_with_object_id_def Cons.IH
             split: option.splits)
qed

lemma decrypt_contests_those:
  assumes "election_context ctx = Some econtext"
    and "\<And>sid. defaultdict_get tally_shares sid = gather_shares sh sid"
  shows "decrypt_contests L tally_shares ctx cs acc =
           (case those (map (contest_result L sh econtext) cs) of
              None \<Rightarrow> Inl AttributeError
            | Some rs \<Rightarrow> Inr (fold (\<lambda>kv. AList.update (fst kv) (snd kv))
                               (map (\<lambda>r. (ptc_object_id r, r)) rs) acc))"
proof (induction cs arbitrary: acc)
  case Nil
  then show ?case by simp
next
  case (Cons c cs)
  show ?case
    by (cases "those (map (combine_selection L sh econtext) (map snd (tally_selections c)))")
       (auto simp: decrypt_selections_those[OF assms] contest_result_def dict_of_def Cons.IH
             split: option.splits)
qed

text \<open>The combination reads the context for \<^verbatim>\<open>election_context\<close> only, and the gathered
  shares through the entries of the selections.\<close>

lemma decrypt_selections_cong:
  assumes "election_context ctx1 = election_context ctx2"
    and "\<And>sel h. decrypt_selection_with_decryption_shares L sel
                     (defaultdict_get ts1 (cts_object_id sel)) h =
                   decrypt_selection_with_decryption_shares L sel
                     (defaultdict_get ts2 (cts_object_id sel)) h"
  shows "decrypt_selections L ts1 ctx1 sels acc = decrypt_selections L ts2 ctx2 sels acc"
proof (induction sels arbitrary: acc)
  case Nil
  then show ?case by simp
next
  case (Cons s sels)
  show ?case
    by (simp add: assms Cons.IH split: option.splits sum.splits prod.splits)
qed

lemma decrypt_contests_cong:
  assumes "election_context ctx1 = election_context ctx2"
    and "\<And>sel h. decrypt_selection_with_decryption_shares L sel
                     (defaultdict_get ts1 (cts_object_id sel)) h =
                   decrypt_selection_with_decryption_shares L sel
                     (defaultdict_get ts2 (cts_object_id sel)) h"
  shows "decrypt_contests L ts1 ctx1 cs acc = decrypt_contests L ts2 ctx2 cs acc"
proof (induction cs arbitrary: acc)
  case Nil
  then show ?case by simp
next
  case (Cons c cs)
  show ?case
    by (simp add: decrypt_selections_cong[OF assms] Cons.IH split: sum.splits)
qed

lemma share_message_step:
  assumes "bb_step bb = ProcessTrusteeShare"
  shows "process_message L ''tally.trustee_share'' (TrusteeShareJSON share) bb =
     (let sh = AList.update (ts_guardian_id share) share (shares (bb_context bb));
          ctx1 = (bb_context bb)\<lparr>shares := sh\<rparr>;
          bb1 = \<lparr>bb_context = ctx1, bb_step = ProcessTrusteeShare\<rparr>
      in case number_of_guardians (bb_context bb) of
           None \<Rightarrow> (Inl AttributeError, bb1)
         | Some n \<Rightarrow>
             if length sh < n then (Inr None, bb1)
             else (case tally (bb_context bb) of
                     None \<Rightarrow> (Inl AttributeError, bb1)
                   | Some t \<Rightarrow>
                       (case decrypt_contests L (prepare_shares_for_decryption sh) ctx1
                               (map snd (cast t)) [] of
                          Inl e \<Rightarrow> (Inl e, bb1)
                        | Inr results \<Rightarrow> (Inr (Some (end_tally results)), bb1))))"
  using assms
  by (simp add: process_message_def ProcessTrusteeShare_process_message_def
      deserialize_TrusteeShare_def Let_def end_tally_def split: option.splits sum.splits)


text \<open>
  Claim C1. Let the step \<^verbatim>\<open>ProcessTrusteeElectionKeys\<close> be active with no key recorded yet,
  in an election with \<open>N \<ge> 1\<close> guardians. Submitting the keys of \<open>N\<close> distinct guardians, in
  whatever order the list \<open>gks\<close> has them, leaves the step in place after each of the first
  \<open>N - 1\<close> messages and moves to \<^verbatim>\<open>ProcessTrusteeElectionPartialKeys\<close> at the last one, and
  whatever guardian keys are submitted after that change nothing: one transition. Any list of submissions from fewer than \<open>N\<close> distinct guardians leaves the step
  in place, and the dictionary then has one entry per distinct guardian. A further submission
  from a guardian \<open>g\<close> already recorded replaces that guardian's key and leaves the number of
  entries as it was.
\<close>

theorem trustee_election_keys_quorum:
  assumes "bb_step bb = ProcessTrusteeElectionKeys"
    and "number_of_guardians (bb_context bb) = Some N"
    and "1 \<le> N"
    and "public_keys (bb_context bb) = []"
  shows "(distinct (map fst gks) \<and> length gks = N \<longrightarrow>
            (\<forall>n<N. bb_step (run L (map key_message (take n gks)) bb) =
                ProcessTrusteeElectionKeys) \<and>
            bb_step (run L (map key_message gks) bb) = ProcessTrusteeElectionPartialKeys {} \<and>
            (\<forall>more. run L (map key_message (gks @ more)) bb =
                      run L (map key_message gks) bb)) \<and>
         (card (fst ` set gks) < N \<longrightarrow>
            bb_step (run L (map key_message gks) bb) = ProcessTrusteeElectionKeys \<and>
            length (public_keys (bb_context (run L (map key_message gks) bb))) =
              card (fst ` set gks)) \<and>
         (card (fst ` set gks) < N \<and> g \<in> fst ` set gks \<longrightarrow>
            bb_step (run L (map key_message (gks @ [(g, k)])) bb) =
              ProcessTrusteeElectionKeys \<and>
            length (public_keys (bb_context (run L (map key_message (gks @ [(g, k)])) bb))) =
              length (public_keys (bb_context (run L (map key_message gks) bb))) \<and>
            map_of (public_keys (bb_context (run L (map key_message (gks @ [(g, k)])) bb))) =
              (map_of (public_keys (bb_context (run L (map key_message gks) bb))))(g \<mapsto> k))"
proof -
  have below: "run L (map key_message xs) bb =
                 \<lparr>bb_context = (bb_context bb)\<lparr>public_keys := record_keys xs []\<rparr>,
                  bb_step = ProcessTrusteeElectionKeys\<rparr>"
    if "card (fst ` set xs) < N" for xs
    using keys_below_quorum[OF assms(1,2), of xs L] that assms(4) by simp
  have len: "length (record_keys xs []) = card (fst ` set xs)"
    for xs :: "(GUARDIAN_ID \<times> ElementModP) list"
    using dict_len_card[of "record_keys xs []"] record_keys_distinct[of "[]" xs]
    by (simp add: record_keys_dom)
  have part2: "bb_step (run L (map key_message gks) bb) = ProcessTrusteeElectionKeys \<and>
      length (public_keys (bb_context (run L (map key_message gks) bb))) = card (fst ` set gks)"
    if "card (fst ` set gks) < N"
    using below[OF that] len by simp
  have part1: "(\<forall>n<N. bb_step (run L (map key_message (take n gks)) bb) =
                  ProcessTrusteeElectionKeys) \<and>
            bb_step (run L (map key_message gks) bb) = ProcessTrusteeElectionPartialKeys {} \<and>
            (\<forall>more. run L (map key_message (gks @ more)) bb =
                      run L (map key_message gks) bb)"
    if d: "distinct (map fst gks)" and l: "length gks = N"
  proof (intro conjI)
    show "\<forall>n<N. bb_step (run L (map key_message (take n gks)) bb) = ProcessTrusteeElectionKeys"
    proof (intro allI impI)
      fix n assume n: "n < N"
      have "card (fst ` set (take n gks)) \<le> length (take n gks)"
        by (metis card_image_le card_length List.finite_set le_trans)
      then have "card (fst ` set (take n gks)) < N" using n l by simp
      then show "bb_step (run L (map key_message (take n gks)) bb) = ProcessTrusteeElectionKeys"
        using below by simp
    qed
  next
    from l assms(3) have ne: "gks \<noteq> []" by auto
    define xs where "xs = butlast gks"
    define gk where "gk = last gks"
    have split: "gks = xs @ [gk]" using ne by (simp add: xs_def gk_def)
    have dx: "distinct (map fst xs)" and notin: "fst gk \<notin> fst ` set xs"
      using d by (auto simp: split)
    have lx: "Suc (length xs) = N" using l by (simp add: split)
    have cx: "card (fst ` set xs) = length xs"
      using dx by (metis distinct_card length_map set_map)
    then have bx: "run L (map key_message xs) bb =
                 \<lparr>bb_context = (bb_context bb)\<lparr>public_keys := record_keys xs []\<rparr>,
                  bb_step = ProcessTrusteeElectionKeys\<rparr>"
      using below[of xs] lx by simp
    have "fst gk \<notin> fst ` set (record_keys xs [])"
      using notin by (simp add: record_keys_dom)
    then have "length (AList.update (fst gk) (snd gk) (record_keys xs [])) =
                 Suc (length (record_keys xs []))"
      by (simp add: length_dict_update)
    then have "length (AList.update (fst gk) (snd gk) (record_keys xs [])) = N"
      using len[of xs] cx lx by simp
    then show moved:
      "bb_step (run L (map key_message gks) bb) = ProcessTrusteeElectionPartialKeys {}"
      using key_message_step[of "run L (map key_message xs) bb" N L gk] assms(2)
      by (simp add: split run_append run_Cons run_Nil bx)
    show "\<forall>more. run L (map key_message (gks @ more)) bb = run L (map key_message gks) bb"
      using key_messages_skipped[of "run L (map key_message gks) bb" L] moved
      by (simp add: run_append)
  qed
  have part3: "bb_step (run L (map key_message (gks @ [(g, k)])) bb) =
              ProcessTrusteeElectionKeys \<and>
            length (public_keys (bb_context (run L (map key_message (gks @ [(g, k)])) bb))) =
              length (public_keys (bb_context (run L (map key_message gks) bb))) \<and>
            map_of (public_keys (bb_context (run L (map key_message (gks @ [(g, k)])) bb))) =
              (map_of (public_keys (bb_context (run L (map key_message gks) bb))))(g \<mapsto> k)"
    if c: "card (fst ` set gks) < N" and g: "g \<in> fst ` set gks"
  proof -
    have same: "fst ` set (gks @ [(g, k)]) = fst ` set gks" using g by auto
    then have c': "card (fst ` set (gks @ [(g, k)])) < N" using c by simp
    have "record_keys (gks @ [(g, k)]) [] = AList.update g k (record_keys gks [])"
      by (simp add: record_keys_def)
    then show ?thesis
      using below[OF c] below[OF c'] len[of gks] len[of "gks @ [(g, k)]"] same
      by (simp add: AList.update_conv')
  qed
  from part1 part2 part3 show ?thesis by blast
qed

theorem trustee_election_keys_quorum_witness:
  "bb_step (run demo_lib (map key_message [(''alice'', 5), (''bob'', 7)]) demo_keys_bb) =
     ProcessTrusteeElectionPartialKeys {} \<and>
   run demo_lib (map key_message ([(''alice'', 5), (''bob'', 7)] @ [(''carol'', 3)]))
     demo_keys_bb =
     run demo_lib (map key_message [(''alice'', 5), (''bob'', 7)]) demo_keys_bb \<and>
   bb_step (run demo_lib (map key_message [(''alice'', 5)]) demo_keys_bb) =
     ProcessTrusteeElectionKeys \<and>
   length (public_keys (bb_context
      (run demo_lib (map key_message [(''alice'', 5)]) demo_keys_bb))) = 1 \<and>
   map_of (public_keys (bb_context
      (run demo_lib (map key_message ([(''alice'', 5)] @ [(''alice'', 9)])) demo_keys_bb)))
      ''alice'' = Some 9"
proof -
  have h: "bb_step demo_keys_bb = ProcessTrusteeElectionKeys"
    "number_of_guardians (bb_context demo_keys_bb) = Some 2"
    "(1::nat) \<le> 2" "public_keys (bb_context demo_keys_bb) = []"
    by (simp_all add: demo_defs)
  note t = trustee_election_keys_quorum[OF h]
  have a: "card (fst ` set [(''alice'', 5::nat)]) < 2" by simp
  have d: "distinct (map fst [(''alice'', 5::nat), (''bob'', 7)]) \<and>
           length [(''alice'', 5::nat), (''bob'', 7)] = 2"
    by simp
  note t2 = t[where gks = "[(''alice'', 5), (''bob'', 7)]" and L = demo_lib
              and g = "''alice''" and k = 9]
  from t2 d have m: "run demo_lib
        (map key_message ([(''alice'', 5), (''bob'', 7)] @ [(''carol'', 3)])) demo_keys_bb =
        run demo_lib (map key_message [(''alice'', 5), (''bob'', 7)]) demo_keys_bb"
    by blast
  from t2 t[where gks = "[(''alice'', 5)]" and L = demo_lib and g = "''alice''" and k = 9] a m
  show ?thesis by simp
qed

subsection \<open>The end of the key ceremony\<close>

text \<open>
  Claim C2. In the step \<^verbatim>\<open>ProcessTrusteeVerification\<close>, a verification of guardian \<open>g\<close> that
  leaves fewer than \<open>N\<close> guardians in \<^verbatim>\<open>verifications_received\<close> returns no message and no
  next step and changes nothing but that set. One that brings the set to \<open>N\<close> guardians
  combines the values of \<^verbatim>\<open>context.public_keys\<close> into the joint key, gives the key to the
  election builder, stores the metadata and the context the builder builds, and returns the
  message \<^verbatim>\<open>end_key_ceremony\<close> with the joint key together with the next step
  \<^verbatim>\<open>ProcessStartVote\<close> (when the library produces a key and the builder builds).
\<close>

theorem trustee_verification_quorum:
  assumes "number_of_guardians ctx = Some N"
  shows "(card (insert g received) < N \<longrightarrow>
            ProcessTrusteeVerification_process_message L message_type
                (TrusteeVerificationJSON g) received ctx =
              (Inr (None, None), insert g received, ctx)) \<and>
         (N \<le> card (insert g received) \<and> election_builder ctx = Some builder \<and>
          elgamal_combine_public_keys L (map snd (public_keys ctx)) = Some joint_key \<and>
          build L (set_public_key L builder joint_key) = Some (metadata, econtext) \<longrightarrow>
            ProcessTrusteeVerification_process_message L message_type
                (TrusteeVerificationJSON g) received ctx =
              (Inr (Some \<lparr>out_message_type = ''end_key_ceremony'',
                          out_body = SerializedJointElectionKey joint_key\<rparr>,
                    Some ProcessStartVote),
               insert g received,
               ctx\<lparr>election_builder := Some (set_public_key L builder joint_key),
                   election_metadata := Some metadata,
                   election_context := Some econtext\<rparr>))"
  using assms
  by (auto simp: ProcessTrusteeVerification_process_message_def
      deserialize_TrusteeVerification_def get_optional_def Let_def)

theorem trustee_verification_quorum_witness:
  "ProcessTrusteeVerification_process_message demo_lib ''key_ceremony.trustee_verification''
     (TrusteeVerificationJSON ''alice'') {} demo_verification_context =
     (Inr (None, None), {''alice''}, demo_verification_context) \<and>
   ProcessTrusteeVerification_process_message demo_lib ''key_ceremony.trustee_verification''
     (TrusteeVerificationJSON ''bob'') {''alice''} demo_verification_context =
     (Inr (Some \<lparr>out_message_type = ''end_key_ceremony'',
                 out_body = SerializedJointElectionKey 35\<rparr>,
           Some ProcessStartVote),
      {''bob'', ''alice''}, demo_voting_context)"
proof -
  have n: "number_of_guardians demo_verification_context = Some 2"
    by (simp add: demo_defs)
  have c1: "card (insert ''alice'' ({} :: GUARDIAN_ID set)) < 2" by simp
  have c2: "2 \<le> card (insert ''bob'' {''alice''})" by simp
  have b: "election_builder demo_verification_context = Some 1"
    "elgamal_combine_public_keys demo_lib (map snd (public_keys demo_verification_context)) =
       Some 35"
    "build demo_lib (set_public_key demo_lib 1 35) =
       Some (36, \<lparr>crypto_extended_base_hash = 7, crypto_context_rest = 36\<rparr>)"
    by (simp_all add: demo_defs)
  from trustee_verification_quorum[OF n, where g = "''alice''" and received = "{}"
          and L = demo_lib and message_type = "''key_ceremony.trustee_verification''"] c1
       trustee_verification_quorum[OF n, where g = "''bob''" and received = "{''alice''}"
          and builder = 1 and L = demo_lib and joint_key = 35 and metadata = 36
          and econtext = "\<lparr>crypto_extended_base_hash = 7, crypto_context_rest = 36\<rparr>"
          and message_type = "''key_ceremony.trustee_verification''"] c2 b
  show ?thesis by (simp add: demo_voting_context_def demo_lib_def)
qed

subsection \<open>The end of the tally\<close>

text \<open>
  Claim C3. In the step \<^verbatim>\<open>ProcessTrusteeShare\<close> the handler records the share bundle under
  its guardian. While fewer than \<open>N\<close> guardians are recorded it returns no message and no
  next step. Once \<open>N\<close> are recorded it returns the message \<^verbatim>\<open>end_tally\<close> with the results and
  no next step, where the results are those of \<open>tally_results\<close>: for every contest of the
  cast tally and every selection of the contest, the pairs of guardian public key and
  partial decryption gathered from the recorded bundles are combined under the extended
  base hash, and the plaintexts are assembled per contest (when every combination yields a
  plaintext).
\<close>

theorem trustee_share_quorum:
  assumes "number_of_guardians ctx = Some N"
    and "distinct (map fst (shares ctx))"
  shows "(length (AList.update (ts_guardian_id share) share (shares ctx)) < N \<longrightarrow>
            ProcessTrusteeShare_process_message L message_type (TrusteeShareJSON share) ctx =
              (Inr (None, None),
               ctx\<lparr>shares := AList.update (ts_guardian_id share) share (shares ctx)\<rparr>)) \<and>
         (N \<le> length (AList.update (ts_guardian_id share) share (shares ctx)) \<and>
          tally ctx = Some t \<and> election_context ctx = Some econtext \<and>
          tally_results L (AList.update (ts_guardian_id share) share (shares ctx)) econtext t =
            Some results \<longrightarrow>
            ProcessTrusteeShare_process_message L message_type (TrusteeShareJSON share) ctx =
              (Inr (Some \<lparr>out_message_type = ''end_tally'', out_body = Results results\<rparr>, None),
               ctx\<lparr>shares := AList.update (ts_guardian_id share) share (shares ctx)\<rparr>))"
proof -
  let ?sh = "AList.update (ts_guardian_id share) share (shares ctx)"
  have d: "distinct (map fst ?sh)"
    using assms(2) by (rule AList.distinct_update)
  have g: "defaultdict_get (prepare_shares_for_decryption ?sh) sid = gather_shares ?sh sid"
    for sid
    by (rule prepare_shares_gather[OF d])
  have r: "decrypt_contests L (prepare_shares_for_decryption ?sh) (ctx\<lparr>shares := ?sh\<rparr>)
             (map snd (cast t)) [] = Inr results"
    if "election_context ctx = Some econtext" "tally_results L ?sh econtext t = Some results"
    using that decrypt_contests_those[of "ctx\<lparr>shares := ?sh\<rparr>" econtext
        "prepare_shares_for_decryption ?sh" ?sh L "map snd (cast t)" "[]"] g
    by (auto simp: tally_results_def dict_of_def split: option.splits)
  show ?thesis
    using assms(1) r
    by (auto simp: ProcessTrusteeShare_process_message_def deserialize_TrusteeShare_def Let_def)
qed

theorem trustee_share_quorum_witness:
  "ProcessTrusteeShare_process_message demo_lib ''tally.trustee_share''
     (TrusteeShareJSON demo_share_alice) (demo_share_context\<lparr>shares := []\<rparr>) =
     (Inr (None, None), demo_share_context) \<and>
   ProcessTrusteeShare_process_message demo_lib ''tally.trustee_share''
     (TrusteeShareJSON demo_share_bob) demo_share_context =
     (Inr (Some \<lparr>out_message_type = ''end_tally'', out_body = Results (demo_plaintext 2)\<rparr>,
           None),
      demo_share_context
        \<lparr>shares := [(''alice'', demo_share_alice), (''bob'', demo_share_bob)]\<rparr>)"
proof -
  let ?ec = "\<lparr>crypto_extended_base_hash = 7, crypto_context_rest = 36\<rparr>"
  have n: "number_of_guardians (demo_share_context\<lparr>shares := []\<rparr>) = Some 2"
    "number_of_guardians demo_share_context = Some 2"
    by (simp_all add: demo_share_context_def demo_defs)
  have d: "distinct (map fst (shares (demo_share_context\<lparr>shares := []\<rparr>)))"
    "distinct (map fst (shares demo_share_context))"
    by (simp_all add: demo_share_context_def)
  have u: "AList.update (ts_guardian_id demo_share_alice) demo_share_alice
             (shares (demo_share_context\<lparr>shares := []\<rparr>)) = [(''alice'', demo_share_alice)]"
    "AList.update (ts_guardian_id demo_share_bob) demo_share_bob (shares demo_share_context) =
       [(''alice'', demo_share_alice), (''bob'', demo_share_bob)]"
    by (simp_all add: demo_share_context_def demo_share_alice_def demo_share_bob_def)
  have c: "tally demo_share_context = Some demo_tally"
    "election_context demo_share_context = Some ?ec"
    by (simp_all add: demo_share_context_def demo_defs)
  have r: "tally_results demo_lib [(''alice'', demo_share_alice), (''bob'', demo_share_bob)]
             ?ec demo_tally = Some (demo_plaintext 2)"
    by (simp add: tally_results_def contest_result_def combine_selection_def gather_shares_def
        bundle_selection_def dict_of_def demo_share_alice_def demo_share_bob_def
        demo_lib_def demo_tally_def demo_plaintext_def)
  have s: "demo_share_context\<lparr>shares := []\<rparr>\<lparr>shares := [(''alice'', demo_share_alice)]\<rparr> =
             demo_share_context"
    by (simp add: demo_share_context_def)
  from trustee_share_quorum[OF n(1) d(1), where share = demo_share_alice and L = demo_lib
         and message_type = "''tally.trustee_share''"]
       trustee_share_quorum[OF n(2) d(2), where share = demo_share_bob and L = demo_lib
         and message_type = "''tally.trustee_share''" and t = demo_tally and econtext = ?ec
         and results = "demo_plaintext 2"]
       c r
  show ?thesis unfolding u s by simp
qed

subsection \<open>Casting a vote\<close>

text \<open>
  Claim C4. On a \<^verbatim>\<open>vote.cast\<close> message the step \<^verbatim>\<open>ProcessCastVote\<close> raises
  \<^verbatim>\<open>InvalidBallot\<close> exactly when the message holds a ballot on which
  \<^verbatim>\<open>ballot_is_valid_for_election\<close>, called with the election's metadata and context, returns
  false. Whatever the outcome, the context (and with it the tally) is left as it was; the
  only value the handler returns is no message and no next step, which is what it returns on
  a valid ballot; and the bulletin board as a whole is unchanged by the message.
\<close>

theorem cast_vote_invalid_ballot:
  "(fst (ProcessCastVote_process_message L ''vote.cast'' message ctx) = Inl InvalidBallot \<longleftrightarrow>
      (\<exists>ballot metadata econtext.
          message = CiphertextBallotJSON ballot \<and> election_metadata ctx = Some metadata \<and>
          election_context ctx = Some econtext \<and>
          \<not> ballot_is_valid_for_election L ballot metadata econtext)) \<and>
   snd (ProcessCastVote_process_message L ''vote.cast'' message ctx) = ctx \<and>
   (\<forall>r. fst (ProcessCastVote_process_message L ''vote.cast'' message ctx) = Inr r \<longrightarrow>
        r = (None, None)) \<and>
   (\<forall>ballot metadata econtext.
       message = CiphertextBallotJSON ballot \<and> election_metadata ctx = Some metadata \<and>
       election_context ctx = Some econtext \<and>
       ballot_is_valid_for_election L ballot metadata econtext \<longrightarrow>
       ProcessCastVote_process_message L ''vote.cast'' message ctx = (Inr (None, None), ctx)) \<and>
   (bb_step bb = ProcessCastVote \<longrightarrow> snd (process_message L ''vote.cast'' message bb) = bb)"
  by (auto simp: ProcessCastVote_process_message_def deserialize_CiphertextBallot_def
      process_message_def ProcessCastVote_skip_message_def
      split: option.splits Content.splits)

theorem cast_vote_invalid_ballot_witness:
  "ProcessCastVote_process_message demo_lib ''vote.cast'' (CiphertextBallotJSON 0)
     demo_voting_context = (Inl InvalidBallot, demo_voting_context) \<and>
   ProcessCastVote_process_message demo_lib ''vote.cast'' (CiphertextBallotJSON 3)
     demo_voting_context = (Inr (None, None), demo_voting_context) \<and>
   snd (process_message demo_lib ''vote.cast'' (CiphertextBallotJSON 0)
     \<lparr>bb_context = demo_voting_context, bb_step = ProcessCastVote\<rparr>) =
     \<lparr>bb_context = demo_voting_context, bb_step = ProcessCastVote\<rparr>"
proof -
  have m: "election_metadata demo_voting_context = Some 36"
    "election_context demo_voting_context =
       Some \<lparr>crypto_extended_base_hash = 7, crypto_context_rest = 36\<rparr>"
    by (simp_all add: demo_defs)
  have v: "\<not> ballot_is_valid_for_election demo_lib 0 36
               \<lparr>crypto_extended_base_hash = 7, crypto_context_rest = 36\<rparr>"
    "ballot_is_valid_for_election demo_lib 3 36
               \<lparr>crypto_extended_base_hash = 7, crypto_context_rest = 36\<rparr>"
    by (simp_all add: demo_lib_def)
  have s: "bb_step \<lparr>bb_context = demo_voting_context, bb_step = ProcessCastVote\<rparr> =
             ProcessCastVote"
    by simp
  from cast_vote_invalid_ballot[where L = demo_lib and message = "CiphertextBallotJSON 0"
         and ctx = demo_voting_context
         and bb = "\<lparr>bb_context = demo_voting_context, bb_step = ProcessCastVote\<rparr>"]
       cast_vote_invalid_ballot[where L = demo_lib and message = "CiphertextBallotJSON 3"
         and ctx = demo_voting_context]
       m v s
  show ?thesis by (auto simp: prod_eq_iff)
qed

subsection \<open>The keys behind the joint key\<close>



subsection \<open>How many partial decryptions a selection gets\<close>

text \<open>
  Claim C6, as it stands, fails: two guardians, the share of alice recorded, and bob sends
  a bundle that has no partial decryption for the selection \<^verbatim>\<open>sel-1\<close>. The quorum is
  reached, \<^verbatim>\<open>end_tally\<close> is sent, and the selection was combined from one partial
  decryption, not from two. And what the library is given for a selection keeps the order
  of submission: the same two bundles, recorded in the other order, give the entries in the
  other order.
\<close>

theorem share_combination_counterexample:
  "number_of_guardians demo_share_context = Some 2 \<and>
   fst (ProcessTrusteeShare_process_message demo_lib ''tally.trustee_share''
          (TrusteeShareJSON demo_share_bob_empty) demo_share_context) =
     Inr (Some (end_tally (demo_plaintext 1)), None) \<and>
   length (defaultdict_get
             (prepare_shares_for_decryption
                (shares (snd (ProcessTrusteeShare_process_message demo_lib
                   ''tally.trustee_share'' (TrusteeShareJSON demo_share_bob_empty)
                   demo_share_context))))
             ''sel-1'') \<noteq> 2 \<and>
   defaultdict_get
     (prepare_shares_for_decryption [(''alice'', demo_share_alice), (''bob'', demo_share_bob)])
     ''sel-1'' \<noteq>
   defaultdict_get
     (prepare_shares_for_decryption [(''bob'', demo_share_bob), (''alice'', demo_share_alice)])
     ''sel-1''"
  by (simp add: ProcessTrusteeShare_process_message_def deserialize_TrusteeShare_def
      demo_share_context_def demo_share_bob_empty_def demo_share_alice_def demo_defs
      demo_share_bob_def
      prepare_shares_for_decryption_def defaultdict_get_def pair_with_object_id_def
      end_tally_def demo_plaintext_def)

text \<open>
  Claim C6, amended. Let \<open>sh\<close> be the share bundles recorded when the tally is combined.
  For each selection the combination is given what \<open>gather_shares\<close> describes: one
  partial decryption for every recorded guardian whose bundle has the selection, paired
  with the public key of that guardian's bundle, and nothing for a guardian whose bundle
  lacks it; so it is given exactly \<open>N\<close> of them when \<open>N\<close> bundles are recorded and each has
  the selection. The outcome does not depend on the order of submission as far as the
  bulletin board goes: two final submissions that leave the same bundles recorded, in
  whatever order, hand the library the same entries for every selection, and return the
  same result (the same \<^verbatim>\<open>end_tally\<close> message) whenever the library's combination does not
  depend on the order of the entries it is given.
\<close>

theorem share_combination_per_selection:
  assumes "distinct (map fst sh)"
  shows "defaultdict_get (prepare_shares_for_decryption sh) sid = gather_shares sh sid \<and>
         map_of (defaultdict_get (prepare_shares_for_decryption sh) sid) g =
           (case map_of sh g of
              None \<Rightarrow> None
            | Some share \<Rightarrow>
                map_option (\<lambda>d. (ts_public_key share, d)) (bundle_selection share sid)) \<and>
         distinct (map fst (defaultdict_get (prepare_shares_for_decryption sh) sid)) \<and>
         length (defaultdict_get (prepare_shares_for_decryption sh) sid) =
           length (filter (\<lambda>gs. bundle_selection (snd gs) sid \<noteq> None) sh) \<and>
         (length sh = N \<and> (\<forall>gs\<in>set sh. bundle_selection (snd gs) sid \<noteq> None) \<longrightarrow>
            length (defaultdict_get (prepare_shares_for_decryption sh) sid) = N) \<and>
         (distinct (map fst (shares ctx_a)) \<and> distinct (map fst (shares ctx_b)) \<and>
          ctx_b = ctx_a\<lparr>shares := shares ctx_b\<rparr> \<and>
          set (AList.update (ts_guardian_id share_a) share_a (shares ctx_a)) =
            set (AList.update (ts_guardian_id share_b) share_b (shares ctx_b)) \<and>
          (\<forall>sel d1 d2 h.
              distinct (map fst d1) \<and> distinct (map fst d2) \<and> set d1 = set d2 \<longrightarrow>
              decrypt_selection_with_decryption_shares L sel d1 h =
                decrypt_selection_with_decryption_shares L sel d2 h) \<longrightarrow>
            fst (ProcessTrusteeShare_process_message L mt (TrusteeShareJSON share_a) ctx_a) =
              fst (ProcessTrusteeShare_process_message L mt (TrusteeShareJSON share_b) ctx_b))"
proof -
  note g = prepare_shares_gather[OF assms]
  have len: "length (gather_shares sh sid) =
               length (filter (\<lambda>gs. bundle_selection (snd gs) sid \<noteq> None) sh)"
    using arg_cong[OF gather_shares_keys[of sh sid], of length] by simp
  have all: "length (gather_shares sh sid) = N"
    if "length sh = N" "\<forall>gs\<in>set sh. bundle_selection (snd gs) sid \<noteq> None"
    using that len by (simp add: filter_True)
  have det: "fst (ProcessTrusteeShare_process_message L mt (TrusteeShareJSON share_a) ctx_a) =
              fst (ProcessTrusteeShare_process_message L mt (TrusteeShareJSON share_b) ctx_b)"
    if da: "distinct (map fst (shares ctx_a))" and db: "distinct (map fst (shares ctx_b))"
      and c: "ctx_b = ctx_a\<lparr>shares := shares ctx_b\<rparr>"
      and s: "set (AList.update (ts_guardian_id share_a) share_a (shares ctx_a)) =
                set (AList.update (ts_guardian_id share_b) share_b (shares ctx_b))"
      and ins: "\<And>sel d1 d2 h.
              distinct (map fst d1) \<and> distinct (map fst d2) \<and> set d1 = set d2 \<Longrightarrow>
              decrypt_selection_with_decryption_shares L sel d1 h =
                decrypt_selection_with_decryption_shares L sel d2 h"
  proof -
    let ?sa = "AList.update (ts_guardian_id share_a) share_a (shares ctx_a)"
    let ?sb = "AList.update (ts_guardian_id share_b) share_b (shares ctx_b)"
    have dsa: "distinct (map fst ?sa)" using da by (rule AList.distinct_update)
    have dsb: "distinct (map fst ?sb)" using db by (rule AList.distinct_update)
    have "distinct ?sa" "distinct ?sb"
      using dsa dsb by (simp_all add: distinct_map)
    then have l: "length ?sa = length ?sb"
      using s by (metis distinct_card)
    have e: "decrypt_selection_with_decryption_shares L sel
               (defaultdict_get (prepare_shares_for_decryption ?sa) (cts_object_id sel)) h =
             decrypt_selection_with_decryption_shares L sel
               (defaultdict_get (prepare_shares_for_decryption ?sb) (cts_object_id sel)) h"
      for sel h
      unfolding prepare_shares_gather[OF dsa] prepare_shares_gather[OF dsb]
      by (rule ins) (simp add: gather_shares_distinct dsa dsb gather_shares_set s)
    have ec: "election_context (ctx_a\<lparr>shares := ?sa\<rparr>) = election_context (ctx_b\<lparr>shares := ?sb\<rparr>)"
      by (subst c) simp
    have dc: "decrypt_contests L (prepare_shares_for_decryption ?sa) (ctx_a\<lparr>shares := ?sa\<rparr>) cs [] =
              decrypt_contests L (prepare_shares_for_decryption ?sb) (ctx_b\<lparr>shares := ?sb\<rparr>) cs []"
      for cs
      by (rule decrypt_contests_cong[OF ec e])
    have n: "number_of_guardians ctx_b = number_of_guardians ctx_a"
      and t: "tally ctx_b = tally ctx_a"
      by (subst c, simp)+
    show ?thesis
      by (simp add: ProcessTrusteeShare_process_message_def deserialize_TrusteeShare_def
          Let_def n t l dc split: option.splits sum.splits)
  qed
  show ?thesis
    unfolding g
    using gather_shares_map_of[OF assms, of sid g] gather_shares_distinct[OF assms, of sid]
      len all det
    by blast
qed

theorem share_combination_per_selection_witness:
  "defaultdict_get
      (prepare_shares_for_decryption [(''alice'', demo_share_alice), (''bob'', demo_share_bob)])
      ''sel-1'' = [(''alice'', (5, 11)), (''bob'', (7, 13))] \<and>
   length (defaultdict_get
      (prepare_shares_for_decryption [(''alice'', demo_share_alice), (''bob'', demo_share_bob)])
      ''sel-1'') = 2 \<and>
   fst (ProcessTrusteeShare_process_message demo_lib ''tally.trustee_share''
          (TrusteeShareJSON demo_share_bob) demo_share_context) =
   fst (ProcessTrusteeShare_process_message demo_lib ''tally.trustee_share''
          (TrusteeShareJSON demo_share_alice)
          (demo_share_context\<lparr>shares := [(''bob'', demo_share_bob)]\<rparr>))"
proof -
  let ?sh = "[(''alice'', demo_share_alice), (''bob'', demo_share_bob)]"
  let ?ctx_b = "demo_share_context\<lparr>shares := [(''bob'', demo_share_bob)]\<rparr>"
  have d: "distinct (map fst ?sh)" by simp
  have cover: "length ?sh = 2 \<and> (\<forall>gs\<in>set ?sh. bundle_selection (snd gs) ''sel-1'' \<noteq> None)"
    by (simp add: bundle_selection_def demo_share_alice_def demo_share_bob_def)
  have v: "gather_shares ?sh ''sel-1'' = [(''alice'', (5, 11)), (''bob'', (7, 13))]"
    by (simp add: gather_shares_def bundle_selection_def demo_share_alice_def
        demo_share_bob_def)
  have h: "distinct (map fst (shares demo_share_context)) \<and>
           distinct (map fst (shares ?ctx_b)) \<and>
           ?ctx_b = demo_share_context\<lparr>shares := shares ?ctx_b\<rparr> \<and>
           set (AList.update (ts_guardian_id demo_share_bob) demo_share_bob
                  (shares demo_share_context)) =
             set (AList.update (ts_guardian_id demo_share_alice) demo_share_alice
                  (shares ?ctx_b))"
    by (auto simp: demo_share_context_def demo_share_alice_def demo_share_bob_def)
  have ins: "\<forall>sel d1 d2 h.
              distinct (map fst d1) \<and> distinct (map fst d2) \<and> set d1 = set d2 \<longrightarrow>
              decrypt_selection_with_decryption_shares demo_lib sel d1 h =
                decrypt_selection_with_decryption_shares demo_lib sel d2 h"
  proof (intro allI impI)
    fix sel :: CiphertextTallySelection and h :: ElementModQ
      and d1 d2 :: "(GUARDIAN_ID, ElementModP \<times> CiphertextDecryptionSelection) dict"
    assume a: "distinct (map fst d1) \<and> distinct (map fst d2) \<and> set d1 = set d2"
    then have "distinct d1" "distinct d2" by (simp_all add: distinct_map)
    with a have "length d1 = length d2" by (metis distinct_card)
    then show "decrypt_selection_with_decryption_shares demo_lib sel d1 h =
                decrypt_selection_with_decryption_shares demo_lib sel d2 h"
      by (simp add: demo_lib_def)
  qed
  note t = share_combination_per_selection[OF d, where sid = "''sel-1''" and N = 2
      and ctx_a = demo_share_context and ctx_b = ?ctx_b and share_a = demo_share_bob
      and share_b = demo_share_alice and L = demo_lib and mt = "''tally.trustee_share''"]
  from t v cover h ins show ?thesis by simp
qed

subsection \<open>Adding ballots and reading the cast tally\<close>

text \<open>
  Claim C7, as it stands, fails: after \<^verbatim>\<open>start_vote\<close> and before \<^verbatim>\<open>end_vote\<close> the context has
  no \<^verbatim>\<open>tally\<close> attribute yet (neither \<^verbatim>\<open>__init__\<close> nor \<^verbatim>\<open>start_vote\<close> creates it), so
  \<^verbatim>\<open>add_ballot\<close> with a valid ballot raises \<^verbatim>\<open>AttributeError\<close> and changes nothing.
\<close>

theorem add_ballot_during_vote_counterexample:
  "bb_step (run demo_lib demo_calls BulletinBoard_init) = ProcessCastVote \<and>
   ballot_is_valid_for_election demo_lib 3 5
     \<lparr>crypto_extended_base_hash = 7, crypto_context_rest = 5\<rparr> \<and>
   add_ballot demo_lib (CiphertextBallotJSON 3) (run demo_lib demo_calls BulletinBoard_init) =
     (Inl AttributeError, run demo_lib demo_calls BulletinBoard_init)"
  by (simp add: demo_voting_state add_ballot_def deserialize_CiphertextBallot_def)
     (simp add: demo_lib_def)

text \<open>
  Claim C7, amended. \<^verbatim>\<open>add_ballot\<close> is legal once the \<^verbatim>\<open>end_vote\<close> message has been
  processed: in the states that a run reaches, the tally exists exactly when the step is
  \<^verbatim>\<open>ProcessStartTally\<close> or \<^verbatim>\<open>ProcessTrusteeShare\<close>. When the tally exists, every ballot is
  accepted without error and the tally is replaced by what \<^verbatim>\<open>tally_ballot\<close> makes of it,
  nothing else changing; when it does not exist, the call raises \<^verbatim>\<open>AttributeError\<close> and
  changes nothing.
\<close>

theorem add_ballot_after_end_vote:
  "(tally (bb_context bb) = Some t \<longrightarrow>
      add_ballot L (CiphertextBallotJSON ballot) bb =
        (Inr (), bb\<lparr>bb_context := (bb_context bb)
                     \<lparr>tally := Some (tally_ballot L (from_ciphertext_ballot L ballot CAST) t)\<rparr>\<rparr>)) \<and>
   (tally (bb_context bb) = None \<longrightarrow>
      add_ballot L (CiphertextBallotJSON ballot) bb = (Inl AttributeError, bb)) \<and>
   (bb = run L calls BulletinBoard_init \<longrightarrow>
      (tally (bb_context bb) \<noteq> None \<longleftrightarrow> after_end_vote (bb_step bb)))"
  using reachable_tally[of L calls]
  by (simp add: add_ballot_def deserialize_CiphertextBallot_def)

theorem add_ballot_after_end_vote_witness:
  "tally (bb_context (run demo_lib (demo_calls @ [demo_end_vote]) BulletinBoard_init)) =
     Some demo_tally \<and>
   after_end_vote (bb_step (run demo_lib (demo_calls @ [demo_end_vote]) BulletinBoard_init)) \<and>
   fst (add_ballot demo_lib (CiphertextBallotJSON 3)
          (run demo_lib (demo_calls @ [demo_end_vote]) BulletinBoard_init)) = Inr () \<and>
   map_option cast (tally (bb_context (snd (add_ballot demo_lib (CiphertextBallotJSON 3)
          (run demo_lib (demo_calls @ [demo_end_vote]) BulletinBoard_init))))) =
     Some [(''contest-1'',
            \<lparr>ctc_object_id = ''contest-1'',
             tally_selections =
               [(''sel-1'', \<lparr>cts_object_id = ''sel-1'', cts_ciphertext = 3\<rparr>)]\<rparr>)] \<and>
   tally (bb_context (run demo_lib demo_calls BulletinBoard_init)) = None \<and>
   add_ballot demo_lib (CiphertextBallotJSON 3) (run demo_lib demo_calls BulletinBoard_init) =
     (Inl AttributeError, run demo_lib demo_calls BulletinBoard_init)"
proof -
  let ?closed = "run demo_lib (demo_calls @ [demo_end_vote]) BulletinBoard_init"
  let ?voting = "run demo_lib demo_calls BulletinBoard_init"
  have t: "tally (bb_context ?closed) = Some demo_tally"
    by (simp add: demo_closed_state)
  have n: "tally (bb_context ?voting) = None"
    by (simp add: demo_voting_state)
  have v: "cast (tally_ballot demo_lib (from_ciphertext_ballot demo_lib 3 CAST) demo_tally) =
             [(''contest-1'',
               \<lparr>ctc_object_id = ''contest-1'',
                tally_selections =
                  [(''sel-1'', \<lparr>cts_object_id = ''sel-1'', cts_ciphertext = 3\<rparr>)]\<rparr>)]"
    by (simp add: demo_lib_def demo_tally_def)
  note a = add_ballot_after_end_vote[where bb = ?closed and t = demo_tally and L = demo_lib
             and ballot = 3 and calls = "demo_calls @ [demo_end_vote]"]
  note b = add_ballot_after_end_vote[where bb = ?voting and L = demo_lib and ballot = 3
             and calls = demo_calls]
  from a t have a1: "add_ballot demo_lib (CiphertextBallotJSON 3) ?closed =
        (Inr (), ?closed\<lparr>bb_context := (bb_context ?closed)
           \<lparr>tally := Some (tally_ballot demo_lib (from_ciphertext_ballot demo_lib 3 CAST)
                             demo_tally)\<rparr>\<rparr>)"
    by blast
  from a t have a2: "after_end_vote (bb_step ?closed)" by simp
  from b n have b1: "add_ballot demo_lib (CiphertextBallotJSON 3) ?voting =
        (Inl AttributeError, ?voting)"
    by blast
  show ?thesis
    unfolding a1 b1 using t n a2 v by simp
qed




subsection \<open>The flag \<^verbatim>\<open>has_joint_key\<close>\<close>

lemma step_has_joint_key:
  "has_joint_key (snd (snd (step_process_message L s mt m ctx))) = has_joint_key ctx"
  by (cases s)
     (auto simp: handler_defs Let_def split: option.splits sum.splits prod.splits Content.splits)

lemma process_message_has_joint_key:
  "has_joint_key (bb_context (snd (process_message L mt m bb))) = has_joint_key (bb_context bb)"
proof -
  obtain r s' c' where e: "step_process_message L (bb_step bb) mt m (bb_context bb) = (r, s', c')"
    by (metis prod_cases3)
  with step_has_joint_key[of L "bb_step bb" mt m "bb_context bb"]
  have "has_joint_key c' = has_joint_key (bb_context bb)" by simp
  then show ?thesis
    by (cases r) (auto simp: process_message_def e split: prod.splits)
qed

lemma do_call_has_joint_key:
  "has_joint_key (bb_context (do_call L c bb)) = has_joint_key (bb_context bb)"
  by (cases c)
     (auto simp: process_message_has_joint_key add_ballot_def Let_def split: option.splits)

text \<open>
  Claim C9. \<^verbatim>\<open>has_joint_key\<close> is \<^verbatim>\<open>False\<close> in the context that \<^verbatim>\<open>__init__\<close> creates, and no
  message, ballot or tally export assigns it: it is \<^verbatim>\<open>False\<close> after every sequence of calls
  on a new bulletin board, also once the joint key has been combined and the election
  built.
\<close>

theorem has_joint_key_never_set:
  "has_joint_key (bb_context (run L calls BulletinBoard_init)) = False"
proof -
  have "has_joint_key (bb_context (run L calls bb)) = has_joint_key (bb_context bb)" for bb
    by (induction calls arbitrary: bb) (simp_all add: run_Nil run_Cons do_call_has_joint_key)
  then show ?thesis
    by (simp add: BulletinBoard_init_def BulletinBoardContext_init_def)
qed

theorem has_joint_key_never_set_witness:
  "election_metadata (bb_context (run demo_lib demo_calls BulletinBoard_init)) = Some 5 \<and>
   has_joint_key (bb_context (run demo_lib demo_calls BulletinBoard_init)) = False"
  using has_joint_key_never_set[of demo_lib demo_calls]
  by (simp add: run_defs)

subsection \<open>After the end of the tally\<close>

text \<open>
  Claim C10. Let a \<^verbatim>\<open>tally.trustee_share\<close> message have reached the quorum, so that the
  bulletin board has answered with a message \<open>out\<close>: that message is \<^verbatim>\<open>end_tally\<close>, and the
  step \<^verbatim>\<open>ProcessTrusteeShare\<close> is still the active one. The same message sent again is
  answered with the same \<^verbatim>\<open>end_tally\<close> again. Every further share message is accepted: the
  bundle is written over the guardian's entry (or added), the combination is run again,
  from the share dictionary as it is now, over all the contests of the tally, and its
  results are sent in another \<^verbatim>\<open>end_tally\<close> (or its exception is raised); the step never
  changes.
\<close>

theorem end_tally_repeats:
  assumes "bb_step bb = ProcessTrusteeShare"
    and "process_message L ''tally.trustee_share'' (TrusteeShareJSON share) bb =
           (Inr (Some out), bb')"
  shows "bb_step bb' = ProcessTrusteeShare \<and>
         out_message_type out = ''end_tally'' \<and>
         process_message L ''tally.trustee_share'' (TrusteeShareJSON share) bb' =
           (Inr (Some out), bb') \<and>
         (\<exists>n t. number_of_guardians (bb_context bb') = Some n \<and>
                n \<le> length (shares (bb_context bb')) \<and>
                tally (bb_context bb') = Some t \<and>
                (\<forall>share2.
                   process_message L ''tally.trustee_share'' (TrusteeShareJSON share2) bb' =
                     (let sh2 = AList.update (ts_guardian_id share2) share2
                                  (shares (bb_context bb'));
                          ctx2 = (bb_context bb')\<lparr>shares := sh2\<rparr>;
                          bb2 = \<lparr>bb_context = ctx2, bb_step = ProcessTrusteeShare\<rparr>
                      in case decrypt_contests L (prepare_shares_for_decryption sh2) ctx2
                                (map snd (cast t)) [] of
                           Inl e \<Rightarrow> (Inl e, bb2)
                         | Inr results \<Rightarrow> (Inr (Some (end_tally results)), bb2))))"
proof -
  let ?sh = "AList.update (ts_guardian_id share) share (shares (bb_context bb))"
  let ?ctx1 = "(bb_context bb)\<lparr>shares := ?sh\<rparr>"
  let ?bb1 = "\<lparr>bb_context = ?ctx1, bb_step = ProcessTrusteeShare\<rparr>"
  from assms(2) obtain n t results where
    n: "number_of_guardians (bb_context bb) = Some n" and
    q: "\<not> length ?sh < n" and
    t: "tally (bb_context bb) = Some t" and
    r: "decrypt_contests L (prepare_shares_for_decryption ?sh) ?ctx1 (map snd (cast t)) [] =
          Inr results" and
    out: "out = end_tally results" and
    bb': "bb' = ?bb1"
    unfolding share_message_step[OF assms(1)] Let_def
    by (auto split: option.splits if_splits sum.splits)
  have s': "bb_step bb' = ProcessTrusteeShare" by (simp add: bb')
  have same: "AList.update (ts_guardian_id share) share (shares (bb_context bb')) = ?sh"
    by (simp add: bb')
  have replay: "process_message L ''tally.trustee_share'' (TrusteeShareJSON share) bb' =
           (Inr (Some out), bb')"
    unfolding share_message_step[OF s'] Let_def same
    using n q t r by (simp add: bb' out)
  have further: "process_message L ''tally.trustee_share'' (TrusteeShareJSON share2) bb' =
                     (let sh2 = AList.update (ts_guardian_id share2) share2
                                  (shares (bb_context bb'));
                          ctx2 = (bb_context bb')\<lparr>shares := sh2\<rparr>;
                          bb2 = \<lparr>bb_context = ctx2, bb_step = ProcessTrusteeShare\<rparr>
                      in case decrypt_contests L (prepare_shares_for_decryption sh2) ctx2
                                (map snd (cast t)) [] of
                           Inl e \<Rightarrow> (Inl e, bb2)
                         | Inr results \<Rightarrow> (Inr (Some (end_tally results)), bb2))" for share2
  proof -
    have "length (shares (bb_context bb')) \<le>
            length (AList.update (ts_guardian_id share2) share2 (shares (bb_context bb')))"
      by (simp add: length_dict_update)
    then have "\<not> length (AList.update (ts_guardian_id share2) share2
                          (shares (bb_context bb'))) < n"
      using q by (simp add: bb')
    then show ?thesis
      unfolding share_message_step[OF s'] Let_def
      using n t by (simp add: bb')
  qed
  have "n \<le> length (shares (bb_context bb'))" using q by (simp add: bb')
  moreover have "number_of_guardians (bb_context bb') = Some n" using n by (simp add: bb')
  moreover have "tally (bb_context bb') = Some t" using t by (simp add: bb')
  ultimately show ?thesis
    using s' replay further by (auto simp: out end_tally_def)
qed

theorem end_tally_repeats_witness:
  "process_message demo_lib ''tally.trustee_share'' (TrusteeShareJSON demo_share_bob)
     \<lparr>bb_context = demo_share_context, bb_step = ProcessTrusteeShare\<rparr> =
     (Inr (Some (end_tally (demo_plaintext 2))),
      \<lparr>bb_context = demo_share_context
         \<lparr>shares := [(''alice'', demo_share_alice), (''bob'', demo_share_bob)]\<rparr>,
       bb_step = ProcessTrusteeShare\<rparr>) \<and>
   process_message demo_lib ''tally.trustee_share'' (TrusteeShareJSON demo_share_bob)
     \<lparr>bb_context = demo_share_context
        \<lparr>shares := [(''alice'', demo_share_alice), (''bob'', demo_share_bob)]\<rparr>,
      bb_step = ProcessTrusteeShare\<rparr> =
     (Inr (Some (end_tally (demo_plaintext 2))),
      \<lparr>bb_context = demo_share_context
         \<lparr>shares := [(''alice'', demo_share_alice), (''bob'', demo_share_bob)]\<rparr>,
       bb_step = ProcessTrusteeShare\<rparr>)"
proof -
  let ?bb = "\<lparr>bb_context = demo_share_context, bb_step = ProcessTrusteeShare\<rparr>"
  let ?bb' = "\<lparr>bb_context = demo_share_context
                 \<lparr>shares := [(''alice'', demo_share_alice), (''bob'', demo_share_bob)]\<rparr>,
               bb_step = ProcessTrusteeShare\<rparr>"
  have s: "bb_step ?bb = ProcessTrusteeShare" by simp
  have p: "process_message demo_lib ''tally.trustee_share'' (TrusteeShareJSON demo_share_bob)
             ?bb = (Inr (Some (end_tally (demo_plaintext 2))), ?bb')"
    by (simp add: process_message_def ProcessTrusteeShare_process_message_def
        deserialize_TrusteeShare_def demo_share_context_def demo_share_bob_def
        demo_share_alice_def demo_defs prepare_shares_for_decryption_def defaultdict_get_def
        pair_with_object_id_def end_tally_def demo_plaintext_def)
  from end_tally_repeats[OF s p] p show ?thesis by blast
qed

end
